theory Spec2Isabelle
  imports Complex_Main
begin

section \<open>Data model: hexagonal grid cells, grids and Dirichlet vertices\<close>

text \<open>
  The template parameter \<open>Flt\<close> of \<open>ShapeAnalysis\<close> is idealised by the real numbers.
  Identity values, field values and coordinates are reals; every comparison of the source
  is the same comparison on reals. A vector read \<open>f[k]\<close> is \<open>f ! k\<close>; the properties
  below are stated for indices in range, where the source is defined.
\<close>

type_synonym coord = "real \<times> real"

text \<open>
  Modelled from the spec: the class \<open>Hex\<close> (\<open>Hex.h\<close> is not among the sources).
  A cell has its vector index \<open>vi\<close>, its centre, the flag \<open>boundaryHex\<close>, up to six
  neighbour relations in the fixed directions 0 (E), 1 (NE), 2 (NW), 3 (W), 4 (SW), 5 (SE),
  stored as optional positions into the grid's cell list (an absent neighbour is \<open>None\<close>),
  and six corner coordinates. The outcome of the method \<open>onBoundary()\<close> and the value of
  \<open>getLR()\<close> are taken as given per cell.
\<close>

record Hex =
  vi :: nat
  hex_x :: real
  hex_y :: real
  boundaryHex :: bool
  hex_onBoundary :: bool
  hex_LR :: real
  nbrs :: "nat option list"
  vertex_coords :: "coord list"

text \<open>
  Modelled from the spec: the class \<open>HexGrid\<close> (\<open>HexGrid.h\<close> is not among the sources):
  the owned cell list \<open>hexen\<close>, the hex-to-hex distance returned by \<open>getd()\<close> and the fixed
  tolerance of the coordinate comparisons.
\<close>

record HexGrid =
  hexen :: "Hex list"
  grid_d :: real
  tol :: real

text \<open>Modelled from the spec: \<open>num()\<close>, the cell count of the grid.\<close>

definition num :: "HexGrid \<Rightarrow> nat" where
  "num hg = length (hexen hg)"

text \<open>Modelled from the spec: \<open>has_neighbour\<close>, \<open>get_neighbour\<close> and \<open>get_vertex_coord\<close> of
  \<open>Hex\<close>. A direction outside 0 to 5 has no neighbour.\<close>

definition has_neighbour :: "Hex \<Rightarrow> nat \<Rightarrow> bool" where
  "has_neighbour h ni = (ni < length (nbrs h) \<and> nbrs h ! ni \<noteq> None)"

text \<open>Cells are referred to by position in \<open>hexen\<close>, as the source does by list iterator.\<close>

definition neighbour_pos :: "Hex \<Rightarrow> nat \<Rightarrow> nat" where
  "neighbour_pos h ni = the (nbrs h ! ni)"

definition get_neighbour :: "HexGrid \<Rightarrow> Hex \<Rightarrow> nat \<Rightarrow> Hex" where
  "get_neighbour hg h ni = hexen hg ! neighbour_pos h ni"

definition get_vertex_coord :: "Hex \<Rightarrow> nat \<Rightarrow> coord" where
  "get_vertex_coord h ni = vertex_coords h ! ni"

definition coord_close :: "real \<Rightarrow> coord \<Rightarrow> coord \<Rightarrow> bool" where
  "coord_close t a b = (\<bar>fst a - fst b\<bar> < t \<and> \<bar>snd a - snd b\<bar> < t)"

section \<open>Contour extraction\<close>

definition minmax_upd :: "real \<Rightarrow> real \<times> real \<Rightarrow> real \<times> real" where
  "minmax_upd val = (\<lambda>(maxf, minf).
     (if val > maxf then val else maxf, if val < minf then val else minf))"

text \<open>The first loop of \<open>get_contours\<close>: running maximum and minimum, started at
  \<open>-1e7\<close> and \<open>+1e7\<close>, over the cells for which \<open>onBoundary()\<close> is false.\<close>

definition field_extrema :: "HexGrid \<Rightarrow> real list list \<Rightarrow> real \<times> real" where
  "field_extrema hg f =
     foldl (\<lambda>acc h. if \<not> hex_onBoundary h
                     then foldl (\<lambda>a i. minmax_upd (f ! i ! vi h) a) acc [0..<length f]
                     else acc)
           (- 10000000, 10000000) (hexen hg)"

text \<open>The normalised fields. Where the two extrema coincide the source divides by zero;
  the properties of normalised values below are stated for extrema that differ.\<close>

definition norm_f :: "HexGrid \<Rightarrow> real list list \<Rightarrow> real list list" where
  "norm_f hg f =
     (let (maxf, minf) = field_extrema hg f;
          scalef = 1 / (maxf - minf)
      in map (\<lambda>i. map (\<lambda>h. (f ! i ! h - minf) * scalef) [0..<num hg]) [0..<length f])"

text \<open>The collation: the test on the six neighbours, the membership test of one cell, and
  the collections returned, one per field, in the order of \<open>hexen\<close>.\<close>

definition neighbour_below :: "HexGrid \<Rightarrow> real list \<Rightarrow> real \<Rightarrow> Hex \<Rightarrow> bool" where
  "neighbour_below hg nf threshold h =
     ((has_neighbour h 0 \<and> nf ! vi (get_neighbour hg h 0) < threshold)
    \<or> (has_neighbour h 1 \<and> nf ! vi (get_neighbour hg h 1) < threshold)
    \<or> (has_neighbour h 2 \<and> nf ! vi (get_neighbour hg h 2) < threshold)
    \<or> (has_neighbour h 3 \<and> nf ! vi (get_neighbour hg h 3) < threshold)
    \<or> (has_neighbour h 4 \<and> nf ! vi (get_neighbour hg h 4) < threshold)
    \<or> (has_neighbour h 5 \<and> nf ! vi (get_neighbour hg h 5) < threshold))"

definition contour_member :: "HexGrid \<Rightarrow> real list \<Rightarrow> real \<Rightarrow> Hex \<Rightarrow> bool" where
  "contour_member hg nf threshold h =
     (if \<not> hex_onBoundary h
      then nf ! vi h > threshold \<and> neighbour_below hg nf threshold h
      else nf ! vi h > threshold)"

definition get_contours :: "HexGrid \<Rightarrow> real list list \<Rightarrow> real \<Rightarrow> Hex list list" where
  "get_contours hg f threshold =
     map (\<lambda>i. filter (contour_member hg (norm_f hg f ! i) threshold) (hexen hg))
         [0..<length f]"

section \<open>Region labelling\<close>

text \<open>The inner loop of \<open>dirichlet_regions\<close> for one cell: the state is the running
  maximum and the vector to return.\<close>

definition region_upd :: "real list list \<Rightarrow> Hex \<Rightarrow> real \<times> real list \<Rightarrow> nat \<Rightarrow> real \<times> real list" where
  "region_upd f h = (\<lambda>(maxf, rtn) i.
     if f ! i ! vi h > maxf
     then (f ! i ! vi h, rtn[vi h := real i / real (length f)])
     else (maxf, rtn))"

definition dirichlet_regions :: "HexGrid \<Rightarrow> real list list \<Rightarrow> real list" where
  "dirichlet_regions hg f =
     foldl (\<lambda>rtn h. snd (foldl (region_upd f h) (- 10000000, rtn) [0..<length f]))
           (replicate (length (f ! 0)) 0) (hexen hg)"


section \<open>Concrete grids\<close>

text \<open>
  A grid of seven cells: a centre cell \<open>C\<close> with its six neighbours, hex-to-hex distance 2,
  long radius 1.1547. The six outer cells are boundary cells. In \<open>flower_grid\<close> the centre
  is the first cell of \<open>hexen\<close>; in \<open>outer_first_grid\<close> it is the last. A neighbour is given
  by its position in \<open>hexen\<close>.
\<close>

definition fl_C :: Hex where
  "fl_C =
     \<lparr>vi = 0, hex_x = 0, hex_y = 0,
      boundaryHex = False, hex_onBoundary = False, hex_LR = 11547 / 10000,
      nbrs = [Some 1, Some 2, Some 3, Some 4, Some 5, Some 6],
      vertex_coords = [(1, 11547 / 20000), (0, 11547 / 10000), (- 1, 11547 / 20000), (- 1, - (11547 / 20000)), (0, - (11547 / 10000)), (1, - (11547 / 20000))]\<rparr>"

definition fl_E :: Hex where
  "fl_E =
     \<lparr>vi = 1, hex_x = 2, hex_y = 0,
      boundaryHex = True, hex_onBoundary = True, hex_LR = 11547 / 10000,
      nbrs = [None, None, Some 2, Some 0, Some 6, None],
      vertex_coords = [(3, 11547 / 20000), (2, 11547 / 10000), (1, 11547 / 20000), (1, - (11547 / 20000)), (2, - (11547 / 10000)), (3, - (11547 / 20000))]\<rparr>"

definition fl_NE :: Hex where
  "fl_NE =
     \<lparr>vi = 2, hex_x = 1, hex_y = 34641 / 20000,
      boundaryHex = True, hex_onBoundary = True, hex_LR = 11547 / 10000,
      nbrs = [None, None, None, Some 3, Some 0, Some 1],
      vertex_coords = [(2, 11547 / 5000), (1, 11547 / 4000), (0, 11547 / 5000), (0, 11547 / 10000), (1, 11547 / 20000), (2, 11547 / 10000)]\<rparr>"

definition fl_NW :: Hex where
  "fl_NW =
     \<lparr>vi = 3, hex_x = - 1, hex_y = 34641 / 20000,
      boundaryHex = True, hex_onBoundary = True, hex_LR = 11547 / 10000,
      nbrs = [Some 2, None, None, None, Some 4, Some 0],
      vertex_coords = [(0, 11547 / 5000), (- 1, 11547 / 4000), (- 2, 11547 / 5000), (- 2, 11547 / 10000), (- 1, 11547 / 20000), (0, 11547 / 10000)]\<rparr>"

definition fl_W :: Hex where
  "fl_W =
     \<lparr>vi = 4, hex_x = - 2, hex_y = 0,
      boundaryHex = True, hex_onBoundary = True, hex_LR = 11547 / 10000,
      nbrs = [Some 0, Some 3, None, None, None, Some 5],
      vertex_coords = [(- 1, 11547 / 20000), (- 2, 11547 / 10000), (- 3, 11547 / 20000), (- 3, - (11547 / 20000)), (- 2, - (11547 / 10000)), (- 1, - (11547 / 20000))]\<rparr>"

definition fl_SW :: Hex where
  "fl_SW =
     \<lparr>vi = 5, hex_x = - 1, hex_y = - (34641 / 20000),
      boundaryHex = True, hex_onBoundary = True, hex_LR = 11547 / 10000,
      nbrs = [Some 6, Some 0, Some 4, None, None, None],
      vertex_coords = [(0, - (11547 / 10000)), (- 1, - (11547 / 20000)), (- 2, - (11547 / 10000)), (- 2, - (11547 / 5000)), (- 1, - (11547 / 4000)), (0, - (11547 / 5000))]\<rparr>"

definition fl_SE :: Hex where
  "fl_SE =
     \<lparr>vi = 6, hex_x = 1, hex_y = - (34641 / 20000),
      boundaryHex = True, hex_onBoundary = True, hex_LR = 11547 / 10000,
      nbrs = [None, Some 1, Some 0, Some 5, None, None],
      vertex_coords = [(2, - (11547 / 10000)), (1, - (11547 / 20000)), (0, - (11547 / 10000)), (0, - (11547 / 5000)), (1, - (11547 / 4000)), (2, - (11547 / 5000))]\<rparr>"

definition flower_grid :: HexGrid where
  "flower_grid = \<lparr>hexen = [fl_C, fl_E, fl_NE, fl_NW, fl_W, fl_SW, fl_SE],
     grid_d = 2, tol = 1 / 100000\<rparr>"

definition ofl_E :: Hex where
  "ofl_E =
     \<lparr>vi = 0, hex_x = 2, hex_y = 0,
      boundaryHex = True, hex_onBoundary = True, hex_LR = 11547 / 10000,
      nbrs = [None, None, Some 1, Some 6, Some 5, None],
      vertex_coords = [(3, 11547 / 20000), (2, 11547 / 10000), (1, 11547 / 20000), (1, - (11547 / 20000)), (2, - (11547 / 10000)), (3, - (11547 / 20000))]\<rparr>"

definition ofl_NE :: Hex where
  "ofl_NE =
     \<lparr>vi = 1, hex_x = 1, hex_y = 34641 / 20000,
      boundaryHex = True, hex_onBoundary = True, hex_LR = 11547 / 10000,
      nbrs = [None, None, None, Some 2, Some 6, Some 0],
      vertex_coords = [(2, 11547 / 5000), (1, 11547 / 4000), (0, 11547 / 5000), (0, 11547 / 10000), (1, 11547 / 20000), (2, 11547 / 10000)]\<rparr>"

definition ofl_NW :: Hex where
  "ofl_NW =
     \<lparr>vi = 2, hex_x = - 1, hex_y = 34641 / 20000,
      boundaryHex = True, hex_onBoundary = True, hex_LR = 11547 / 10000,
      nbrs = [Some 1, None, None, None, Some 3, Some 6],
      vertex_coords = [(0, 11547 / 5000), (- 1, 11547 / 4000), (- 2, 11547 / 5000), (- 2, 11547 / 10000), (- 1, 11547 / 20000), (0, 11547 / 10000)]\<rparr>"

definition ofl_W :: Hex where
  "ofl_W =
     \<lparr>vi = 3, hex_x = - 2, hex_y = 0,
      boundaryHex = True, hex_onBoundary = True, hex_LR = 11547 / 10000,
      nbrs = [Some 6, Some 2, None, None, None, Some 4],
      vertex_coords = [(- 1, 11547 / 20000), (- 2, 11547 / 10000), (- 3, 11547 / 20000), (- 3, - (11547 / 20000)), (- 2, - (11547 / 10000)), (- 1, - (11547 / 20000))]\<rparr>"

definition ofl_SW :: Hex where
  "ofl_SW =
     \<lparr>vi = 4, hex_x = - 1, hex_y = - (34641 / 20000),
      boundaryHex = True, hex_onBoundary = True, hex_LR = 11547 / 10000,
      nbrs = [Some 5, Some 6, Some 3, None, None, None],
      vertex_coords = [(0, - (11547 / 10000)), (- 1, - (11547 / 20000)), (- 2, - (11547 / 10000)), (- 2, - (11547 / 5000)), (- 1, - (11547 / 4000)), (0, - (11547 / 5000))]\<rparr>"

definition ofl_SE :: Hex where
  "ofl_SE =
     \<lparr>vi = 5, hex_x = 1, hex_y = - (34641 / 20000),
      boundaryHex = True, hex_onBoundary = True, hex_LR = 11547 / 10000,
      nbrs = [None, Some 0, Some 6, Some 4, None, None],
      vertex_coords = [(2, - (11547 / 10000)), (1, - (11547 / 20000)), (0, - (11547 / 10000)), (0, - (11547 / 5000)), (1, - (11547 / 4000)), (2, - (11547 / 5000))]\<rparr>"

definition ofl_C :: Hex where
  "ofl_C =
     \<lparr>vi = 6, hex_x = 0, hex_y = 0,
      boundaryHex = False, hex_onBoundary = False, hex_LR = 11547 / 10000,
      nbrs = [Some 0, Some 1, Some 2, Some 3, Some 4, Some 5],
      vertex_coords = [(1, 11547 / 20000), (0, 11547 / 10000), (- 1, 11547 / 20000), (- 1, - (11547 / 20000)), (0, - (11547 / 10000)), (1, - (11547 / 20000))]\<rparr>"

definition outer_first_grid :: HexGrid where
  "outer_first_grid = \<lparr>hexen = [ofl_E, ofl_NE, ofl_NW, ofl_W, ofl_SW, ofl_SE, ofl_C],
     grid_d = 2, tol = 1 / 100000\<rparr>"


section \<open>Well-formed inputs and reference notions\<close>

text \<open>Inputs on which every vector access of the source is in range.\<close>

definition wf_grid :: "HexGrid \<Rightarrow> bool" where
  "wf_grid hg = (\<forall>h \<in> set (hexen hg).
      vi h < num hg \<and> length (nbrs h) = 6 \<and> length (vertex_coords h) = 6 \<and>
      (\<forall>p \<in> set (nbrs h). case p of None \<Rightarrow> True | Some q \<Rightarrow> q < num hg))"

definition fields_fit :: "HexGrid \<Rightarrow> real list list \<Rightarrow> bool" where
  "fields_fit hg f = (\<forall>fi \<in> set f. num hg \<le> length fi)"

text \<open>All values of the fields at the given cells.\<close>

definition field_values :: "Hex list \<Rightarrow> real list list \<Rightarrow> real list" where
  "field_values hs f = concat (map (\<lambda>h. map (\<lambda>i. f ! i ! vi h) [0..<length f]) hs)"

text \<open>Concrete fields over the seven cells of the flower grids.\<close>

definition contour_ff :: "real list list" where
  "contour_ff = [[1, 1/2, 1/2, 1/2, 1/2, 1/2, 1/2], [0, 0, 0, 0, 0, 0, 0]]"

text \<open>Contour membership as the specification words it, with a neighbour at or below the
  threshold.\<close>

definition contour_claimed :: "HexGrid \<Rightarrow> real list \<Rightarrow> real \<Rightarrow> Hex \<Rightarrow> bool" where
  "contour_claimed hg nf threshold h =
     (nf ! vi h > threshold \<and>
      (hex_onBoundary h \<or> (\<exists>ni < 6. has_neighbour h ni \<and> nf ! vi (get_neighbour hg h ni) \<le> threshold)))"


definition norm_ff :: "real list list" where
  "norm_ff = [[1, 2, 2, 2, 2, 2, 2], [0, 0, 0, 0, 0, 0, 0]]"

text \<open>The field values at the cells that are not on the boundary.\<close>

definition interior_values :: "HexGrid \<Rightarrow> real list list \<Rightarrow> real list" where
  "interior_values hg f = field_values (filter (\<lambda>h. \<not> hex_onBoundary h) (hexen hg)) f"

definition region_ff :: "real list list" where
  "region_ff = [[- 30000000, 0, 0, 0, 0, 0, 0], [- 20000000, 1, 1, 1, 1, 1, 1]]"

text \<open>The smallest index attaining the maximum, as the specification words the winner.\<close>

definition first_argmax :: "real list \<Rightarrow> nat" where
  "first_argmax vs = (LEAST i. i < length vs \<and> vs ! i = Max (set vs))"


section \<open>Dirichlet vertices\<close>

text \<open>The largest finite value of \<open>Flt\<close> (single precision), which the source uses to mark
  an unset coordinate or identity.\<close>

definition flt_max :: real where
  "flt_max = 340282346638528859811704183484516925440"

text \<open>
  Modelled from the spec: the class \<open>DirichVtx\<close> (\<open>DirichVtx.h\<close> is not among the sources):
  location \<open>v\<close>, domain identity \<open>f\<close>, the ordered pair \<open>neighb\<close> of bordering identities
  (sentinel \<open>-1\<close>), the owning cell \<open>hi\<close> (a position in \<open>hexen\<close>), the flags \<open>onBoundary\<close>
  and \<open>closed\<close> and the two path buffers. A vertex built by the five-argument constructor is
  neither on the boundary nor closed and has empty paths; a default-constructed vertex has
  the unset location, which \<open>unset()\<close> tests; \<open>compare\<close> tests equality of the location with
  a coordinate within the fixed tolerance.
\<close>

record DirichVtx =
  vtx_v :: coord
  vtx_f :: real
  neighb :: "real \<times> real"
  hi :: nat
  onBoundary :: bool
  closed :: bool
  pathto_next :: "coord list"
  pathto_neighbour :: "coord list"

definition new_vtx :: "coord \<Rightarrow> real \<Rightarrow> real \<times> real \<Rightarrow> nat \<Rightarrow> DirichVtx" where
  "new_vtx c fid nb h =
     \<lparr>vtx_v = c, vtx_f = fid, neighb = nb, hi = h, onBoundary = False, closed = False,
      pathto_next = [], pathto_neighbour = []\<rparr>"

definition default_vtx :: DirichVtx where
  "default_vtx =
     \<lparr>vtx_v = (flt_max, flt_max), vtx_f = 0, neighb = (0, 0), hi = 0, onBoundary = False,
      closed = False, pathto_next = [], pathto_neighbour = []\<rparr>"

definition unset :: "DirichVtx \<Rightarrow> bool" where
  "unset dv = (vtx_v dv = (flt_max, flt_max))"

definition vtx_compare :: "HexGrid \<Rightarrow> DirichVtx \<Rightarrow> coord \<Rightarrow> bool" where
  "vtx_compare hg dv c = coord_close (tol hg) (vtx_v dv) c"

text \<open>Modelled from the spec: the coordinate tests of \<open>Hex\<close>, equality within the fixed
  tolerance of a corner, or of the centre, with a given coordinate.\<close>

definition compare_vertex_coord :: "HexGrid \<Rightarrow> Hex \<Rightarrow> nat \<Rightarrow> coord \<Rightarrow> bool" where
  "compare_vertex_coord hg h ni c = coord_close (tol hg) (get_vertex_coord h ni) c"

definition compare_coord :: "HexGrid \<Rightarrow> Hex \<Rightarrow> coord \<Rightarrow> bool" where
  "compare_coord hg h c = coord_close (tol hg) (hex_x h, hex_y h) c"

subsection \<open>Vertex detection\<close>

text \<open>The set \<open>n_ids\<close> of \<open>vertex_test\<close>, of which only the size is read, as a list without
  duplicates.\<close>

definition n_ids :: "HexGrid \<Rightarrow> real list \<Rightarrow> Hex \<Rightarrow> real list" where
  "n_ids hg f h =
     remdups (f ! vi h # map (\<lambda>ni. f ! vi (get_neighbour hg h ni)) (filter (has_neighbour h) [0..<6]))"

definition prev_dirn :: "nat \<Rightarrow> nat" where
  "prev_dirn ni = (if ni > 0 then ni - 1 else 5)"

text \<open>One round of the loop "1. Test for boundary vertices".\<close>

definition boundary_step :: "HexGrid \<Rightarrow> real list \<Rightarrow> nat \<Rightarrow> DirichVtx list \<Rightarrow> nat \<Rightarrow> DirichVtx list" where
  "boundary_step hg f hpos vertices ni =
     (let h = hexen hg ! hpos in
      if has_neighbour h ni \<and> f ! vi (get_neighbour hg h ni) \<noteq> f ! vi h
      then (if \<not> has_neighbour h ((ni + 1) mod 6)
            then vertices @ [(new_vtx (get_vertex_coord h ni) (f ! vi h)
                                (- 1, f ! vi (get_neighbour hg h ni)) hpos)\<lparr>onBoundary := True\<rparr>]
            else if \<not> has_neighbour h (prev_dirn ni)
            then vertices @ [(new_vtx (get_vertex_coord h (prev_dirn ni)) (f ! vi h)
                                (f ! vi (get_neighbour hg h ni), - 1) hpos)\<lparr>onBoundary := True\<rparr>]
            else vertices)
      else vertices)"

text \<open>One round of the loop "2. Test for internal vertices".\<close>

definition internal_step :: "HexGrid \<Rightarrow> real list \<Rightarrow> nat \<Rightarrow> DirichVtx list \<Rightarrow> nat \<Rightarrow> DirichVtx list" where
  "internal_step hg f hpos vertices ni =
     (let h = hexen hg ! hpos in
      if has_neighbour h ni \<and> f ! vi (get_neighbour hg h ni) \<noteq> f ! vi h
      then (let f1 = f ! vi (get_neighbour hg h ni); nii = (ni + 1) mod 6 in
            if has_neighbour h nii
               \<and> f ! vi (get_neighbour hg h nii) \<noteq> f ! vi h
               \<and> f ! vi (get_neighbour hg h nii) \<noteq> f1
            then vertices @ [new_vtx (get_vertex_coord h ni) (f ! vi h)
                               (f ! vi (get_neighbour hg h nii), f ! vi (get_neighbour hg h ni)) hpos]
            else vertices)
      else vertices)"



definition vertex_test :: "HexGrid \<Rightarrow> real list \<Rightarrow> nat \<Rightarrow> DirichVtx list \<Rightarrow> DirichVtx list" where
  "vertex_test hg f hpos vertices =
     (let h = hexen hg ! hpos; n = length (n_ids hg f h) in
      if (boundaryHex h \<and> n \<ge> 2) \<or> (\<not> boundaryHex h \<and> n \<ge> 3)
      then foldl (internal_step hg f hpos)
             (if boundaryHex h then foldl (boundary_step hg f hpos) vertices [0..<6] else vertices)
             [0..<6]
      else vertices)"

subsection \<open>Edge walking\<close>

datatype Rotn = Unknown | Clock | Anticlock

text \<open>
  The two \<open>runtime_error\<close>s that \<open>walk_common\<close> throws, the case in which no corner of
  \<open>hexit_first\<close> matches the current vertex (\<open>hexit_first_dirn\<close> keeps the largest \<open>int\<close>
  and the source goes on to add 1 to it), and a walk that is still running after the given
  number of rounds of its \<open>while\<close> loop.
\<close>

datatype error = SecondHexNotFound | WrongDirection | DirectionUnset | OutOfFuel

definition int_max :: nat where
  "int_max = 2147483647"

definition correct_distance :: "Hex \<Rightarrow> Hex \<Rightarrow> coord \<Rightarrow> bool" where
  "correct_distance hexit_first nb v_init =
     (let x' = hex_x nb - fst v_init; y' = hex_y nb - snd v_init;
          distance = sqrt (x' * x' + y' * y')
      in distance - hex_LR hexit_first < 1 / 1000)"

text \<open>The test before the main loop: which cell becomes \<open>hexit_first\<close>.\<close>

definition seed_first :: "HexGrid \<Rightarrow> real list \<Rightarrow> DirichVtx \<Rightarrow> real \<times> real \<Rightarrow> nat" where
  "seed_first hg f v edgedoms =
     (let h = hexen hg ! hi v in
      if f ! vi h = fst edgedoms
      then (case find (\<lambda>i. has_neighbour h i
                          \<and> correct_distance h (get_neighbour hg h i) (vtx_v v)
                          \<and> f ! vi (get_neighbour hg h i) \<noteq> snd edgedoms
                          \<and> f ! vi (get_neighbour hg h i) \<noteq> fst edgedoms) [0..<6] of
              None \<Rightarrow> hi v
            | Some i \<Rightarrow> neighbour_pos h i)
      else hi v)"

text \<open>The loop that finds the initial direction of the edge; it returns the cell \<open>hexit\<close>
  and \<open>hexit_first_dirn\<close>.\<close>

fun first_dirn :: "HexGrid \<Rightarrow> real list \<Rightarrow> Hex \<Rightarrow> coord \<Rightarrow> real \<Rightarrow> nat list \<Rightarrow> nat \<Rightarrow> nat \<times> nat" where
  "first_dirn hg f h v_init e1 [] hexit = (hexit, int_max)"
| "first_dirn hg f h v_init e1 (i # is) hexit =
     (if compare_vertex_coord hg h i v_init
      then (let hexit1 = (if has_neighbour h ((i + 1) mod 6) then neighbour_pos h ((i + 1) mod 6) else hexit)
            in if has_neighbour h ((i + 1) mod 6) \<and> f ! vi (hexen hg ! hexit1) = e1
               then (hexit1, (i + 1) mod 6)
               else if has_neighbour h (prev_dirn i)
               then (if f ! vi (get_neighbour hg h (prev_dirn i)) = e1
                     then (neighbour_pos h (prev_dirn i), prev_dirn i)
                     else first_dirn hg f h v_init e1 is (neighbour_pos h (prev_dirn i)))
               else (hexit1, prev_dirn i))
      else first_dirn hg f h v_init e1 is hexit)"

text \<open>Whether a candidate for \<open>hexit_neighb\<close> is accepted: it carries \<open>edgedoms.second\<close> and,
  when \<open>next_neighb_coord\<close> is set, lies at that coordinate.\<close>

definition second_ok :: "HexGrid \<Rightarrow> real list \<Rightarrow> Hex \<Rightarrow> real \<Rightarrow> coord \<Rightarrow> bool" where
  "second_ok hg f nb e2 next_neighb_coord =
     (f ! vi nb = e2 \<and>
      (if fst next_neighb_coord \<noteq> flt_max \<and> snd next_neighb_coord \<noteq> flt_max
       then compare_coord hg nb next_neighb_coord else True))"

text \<open>The search for the cell with \<open>edgedoms.second\<close>: \<open>Some (hexit_neighb, hexit_second_dirn)\<close>
  when \<open>found_second\<close> ends true.\<close>

definition find_second :: "HexGrid \<Rightarrow> real list \<Rightarrow> Hex \<Rightarrow> nat \<Rightarrow> real \<Rightarrow> coord \<Rightarrow> (nat \<times> nat) option" where
  "find_second hg f h hexit_first_dirn e2 next_neighb_coord =
     (let j = (hexit_first_dirn + 1) mod 6 in
      if has_neighbour h j \<and> second_ok hg f (get_neighbour hg h j) e2 next_neighb_coord
      then Some (neighbour_pos h j, j)
      else (let j = prev_dirn hexit_first_dirn in
            if has_neighbour h j \<and> second_ok hg f (get_neighbour hg h j) e2 next_neighb_coord
            then Some (neighbour_pos h j, j)
            else None))"

text \<open>\<open>hex_hex_neighb_dirn\<close> and the sense of rotation.\<close>

definition rotation :: "nat \<Rightarrow> nat \<Rightarrow> nat \<times> Rotn" where
  "rotation hexit_first_dirn hexit_second_dirn =
     (if hexit_second_dirn = prev_dirn hexit_first_dirn
      then ((((hexit_first_dirn + 3) mod 6) + 1) mod 6, Anticlock)
      else if hexit_second_dirn = (hexit_first_dirn + 1) mod 6
      then (prev_dirn ((hexit_first_dirn + 3) mod 6), Clock)
      else (int_max, Unknown))"

definition last_j :: "Rotn \<Rightarrow> nat \<Rightarrow> nat" where
  "last_j rot hex_hex_neighb_dirn =
     (if rot = Anticlock then prev_dirn hex_hex_neighb_dirn else (hex_hex_neighb_dirn + 1) mod 6)"

definition next_j :: "Rotn \<Rightarrow> nat \<Rightarrow> nat" where
  "next_j rot j = (if rot = Anticlock then (j + 1) mod 6 else prev_dirn j)"

text \<open>The directions the rotation loop visits: from \<open>hex_hex_neighb_dirn\<close>, stepping in the
  sense of rotation, until \<open>last_j\<close>. The loop visits five directions at most; the first
  argument bounds the count.\<close>

fun rot_dirns :: "nat \<Rightarrow> Rotn \<Rightarrow> nat \<Rightarrow> nat \<Rightarrow> nat list" where
  "rot_dirns 0 rot j lastj = []"
| "rot_dirns (Suc n) rot j lastj = (if j = lastj then [] else j # rot_dirns n rot (next_j rot j) lastj)"

text \<open>How the rotation around \<open>hexit\<close> ends: the edge ends (\<open>partner_found\<close>; the last
  coordinate, the path, \<open>next_neighb_dom\<close> and \<open>next_neighb_coord\<close>), the walk moves on to a
  neighbour with \<open>edgedoms.first\<close> (that neighbour, \<open>v_init\<close> and the path), or all directions
  were visited.\<close>

datatype rotated =
    EdgeEnds coord "coord list" real coord
  | MoveOn nat coord "coord list"
  | AllVisited coord "coord list"

fun rotate_hexit :: "HexGrid \<Rightarrow> real list \<Rightarrow> real \<times> real \<Rightarrow> Hex \<Rightarrow> nat list \<Rightarrow> coord \<Rightarrow> coord list \<Rightarrow> rotated" where
  "rotate_hexit hg f edgedoms h [] v_init path = AllVisited v_init path"
| "rotate_hexit hg f edgedoms h (j # js) v_init path =
     (let c = get_vertex_coord h (prev_dirn j) in
      if \<not> has_neighbour h j
      then EdgeEnds c (path @ [c]) (- 1) (flt_max, flt_max)
      else if f ! vi (get_neighbour hg h j) = snd edgedoms
      then rotate_hexit hg f edgedoms h js c (path @ [c])
      else if f ! vi (get_neighbour hg h j) = fst edgedoms
      then MoveOn (neighbour_pos h j) c path
      else EdgeEnds c (path @ [c]) (f ! vi (get_neighbour hg h j))
             (hex_x (get_neighbour hg h j), hex_y (get_neighbour hg h j)))"

definition nbr_at :: "Hex \<Rightarrow> nat \<Rightarrow> nat option" where
  "nbr_at h ni = (if ni < length (nbrs h) then nbrs h ! ni else None)"

text \<open>
  One round of the main loop of \<open>walk_common\<close>. The loop state is \<open>hexit\<close>,
  \<open>hexit_first\<close>, \<open>v_init\<close> and the path. A round throws, or ends the walk with the last
  coordinate, the path, \<open>next_neighb_dom\<close> and \<open>next_neighb_coord\<close>, or hands the state to
  the next round.
\<close>

type_synonym walked = "coord \<times> coord list \<times> real \<times> coord"

type_synonym walk_state = "nat \<times> nat \<times> coord \<times> coord list"

definition walk_round :: "HexGrid \<Rightarrow> real list \<Rightarrow> real \<times> real \<Rightarrow> coord \<Rightarrow> walk_state
                  \<Rightarrow> error + (walked + walk_state)" where
  "walk_round hg f edgedoms nnc st =
     (case st of (hexit, hexit_first, v_init, path) \<Rightarrow>
      (case first_dirn hg f (hexen hg ! hexit_first) v_init (fst edgedoms) [0..<6] hexit of
        (hexit1, hexit_first_dirn) \<Rightarrow>
          if hexit_first_dirn = int_max then Inl DirectionUnset
          else (case find_second hg f (hexen hg ! hexit_first) hexit_first_dirn (snd edgedoms) nnc of
                  None \<Rightarrow> Inl SecondHexNotFound
                | Some (hexit_neighb, hexit_second_dirn) \<Rightarrow>
                    (case rotation hexit_first_dirn hexit_second_dirn of
                       (hex_hex_neighb_dirn, rot) \<Rightarrow>
                         if Some hexit_neighb \<noteq> nbr_at (hexen hg ! hexit1) hex_hex_neighb_dirn
                         then Inl WrongDirection
                         else (case rotate_hexit hg f edgedoms (hexen hg ! hexit1)
                                      (rot_dirns 6 rot hex_hex_neighb_dirn (last_j rot hex_hex_neighb_dirn))
                                      v_init path of
                                 EdgeEnds c p nnd nnc' \<Rightarrow> Inr (Inl (c, p, nnd, nnc'))
                               | MoveOn hexit_next c p \<Rightarrow> Inr (Inr (hexit_next, hexit1, c, p))
                               | AllVisited c p \<Rightarrow> Inr (Inr (hexit1, hexit_first, c, p)))))))"

text \<open>The main loop; the first argument bounds the number of rounds.\<close>

fun walk_loop :: "nat \<Rightarrow> HexGrid \<Rightarrow> real list \<Rightarrow> real \<times> real \<Rightarrow> coord \<Rightarrow> walk_state \<Rightarrow> error + walked" where
  "walk_loop 0 hg f edgedoms nnc st = Inl OutOfFuel"
| "walk_loop (Suc n) hg f edgedoms nnc st =
     (case walk_round hg f edgedoms nnc st of
        Inl e \<Rightarrow> Inl e
      | Inr (Inl done) \<Rightarrow> Inr done
      | Inr (Inr st') \<Rightarrow> walk_loop n hg f edgedoms nnc st')"

definition walk_common :: "nat \<Rightarrow> HexGrid \<Rightarrow> real list \<Rightarrow> DirichVtx \<Rightarrow> coord list \<Rightarrow> real \<times> real \<Rightarrow> real \<Rightarrow> coord
                  \<Rightarrow> error + walked" where
  "walk_common fuel hg f v path edgedoms next_neighb_dom next_neighb_coord =
     walk_loop fuel hg f edgedoms next_neighb_coord (hi v, seed_first hg f v edgedoms, vtx_v v, path)"

text \<open>The two walks return the coordinate reached, the vertex with its path buffer written,
  \<open>next_neighb_dom\<close> and \<open>next_neighb_coord\<close>.\<close>

definition walk_to_next :: "nat \<Rightarrow> HexGrid \<Rightarrow> real list \<Rightarrow> DirichVtx \<Rightarrow> real \<Rightarrow> coord
                  \<Rightarrow> error + (coord \<times> DirichVtx \<times> real \<times> coord)" where
  "walk_to_next fuel hg f v next_neighb_dom next_neighb_coord =
     (case walk_common fuel hg f v (pathto_next v) (vtx_f v, fst (neighb v))
             next_neighb_dom next_neighb_coord of
        Inl e \<Rightarrow> Inl e
      | Inr (c, p, nnd, nnc) \<Rightarrow> Inr (c, v\<lparr>pathto_next := p\<rparr>, nnd, nnc))"

definition walk_to_neighbour :: "nat \<Rightarrow> HexGrid \<Rightarrow> real list \<Rightarrow> DirichVtx \<Rightarrow> real \<Rightarrow> coord
                  \<Rightarrow> error + (coord \<times> DirichVtx \<times> real \<times> coord)" where
  "walk_to_neighbour fuel hg f v next_neighb_dom next_neighb_coord =
     (if fst (neighb v) = - 1 \<or> snd (neighb v) = - 1
      then Inr ((0, 0), v, next_neighb_dom, next_neighb_coord)
      else (case walk_common fuel hg f v (pathto_neighbour v) (neighb v)
                   next_neighb_dom next_neighb_coord of
              Inl e \<Rightarrow> Inl e
            | Inr (c, p, nnd, nnc) \<Rightarrow> Inr (c, v\<lparr>pathto_neighbour := p\<rparr>, nnd, nnc)))"

subsection \<open>Concrete identity fields and candidate lists\<close>

text \<open>An identity field over the flower grids: seven different identities, the cell with
  vector index \<open>k\<close> carrying \<open>k\<close>.\<close>

definition flower_ids :: "real list" where
  "flower_ids = [0, 1, 2, 3, 4, 5, 6]"

text \<open>The same identities over \<open>outer_first_grid\<close>: the centre, whose vector index there is
  6, carries 0 and the outer cells 1 to 6.\<close>

definition outer_ids :: "real list" where
  "outer_ids = [1, 2, 3, 4, 5, 6, 0]"

text \<open>The candidate lists that the scan of the two grids yields.\<close>

definition flower_vertices :: "DirichVtx list" where
  "flower_vertices =
    [new_vtx (1, 11547 / 20000) 0 (2, 1) 0,
     new_vtx (0, 11547 / 10000) 0 (3, 2) 0,
     new_vtx (- 1, 11547 / 20000) 0 (4, 3) 0,
     new_vtx (- 1, - (11547 / 20000)) 0 (5, 4) 0,
     new_vtx (0, - (11547 / 10000)) 0 (6, 5) 0,
     new_vtx (1, - (11547 / 20000)) 0 (1, 6) 0,
     (new_vtx (2, 11547 / 10000) 1 (2, - 1) 1)\<lparr>onBoundary := True\<rparr>,
     (new_vtx (2, - (11547 / 10000)) 1 (- 1, 6) 1)\<lparr>onBoundary := True\<rparr>,
     new_vtx (1, 11547 / 20000) 1 (0, 2) 1,
     new_vtx (1, - (11547 / 20000)) 1 (6, 0) 1,
     (new_vtx (0, 11547 / 5000) 2 (3, - 1) 2)\<lparr>onBoundary := True\<rparr>,
     (new_vtx (2, 11547 / 10000) 2 (- 1, 1) 2)\<lparr>onBoundary := True\<rparr>,
     new_vtx (0, 11547 / 10000) 2 (0, 3) 2,
     new_vtx (1, 11547 / 20000) 2 (1, 0) 2,
     (new_vtx (0, 11547 / 5000) 3 (- 1, 2) 3)\<lparr>onBoundary := True\<rparr>,
     (new_vtx (- 2, 11547 / 10000) 3 (4, - 1) 3)\<lparr>onBoundary := True\<rparr>,
     new_vtx (- 1, 11547 / 20000) 3 (0, 4) 3,
     new_vtx (0, 11547 / 10000) 3 (2, 0) 3,
     (new_vtx (- 2, 11547 / 10000) 4 (- 1, 3) 4)\<lparr>onBoundary := True\<rparr>,
     (new_vtx (- 2, - (11547 / 10000)) 4 (5, - 1) 4)\<lparr>onBoundary := True\<rparr>,
     new_vtx (- 1, 11547 / 20000) 4 (3, 0) 4,
     new_vtx (- 1, - (11547 / 20000)) 4 (0, 5) 4,
     (new_vtx (0, - (11547 / 5000)) 5 (6, - 1) 5)\<lparr>onBoundary := True\<rparr>,
     (new_vtx (- 2, - (11547 / 10000)) 5 (- 1, 4) 5)\<lparr>onBoundary := True\<rparr>,
     new_vtx (0, - (11547 / 10000)) 5 (0, 6) 5,
     new_vtx (- 1, - (11547 / 20000)) 5 (4, 0) 5,
     (new_vtx (2, - (11547 / 10000)) 6 (1, - 1) 6)\<lparr>onBoundary := True\<rparr>,
     (new_vtx (0, - (11547 / 5000)) 6 (- 1, 5) 6)\<lparr>onBoundary := True\<rparr>,
     new_vtx (1, - (11547 / 20000)) 6 (0, 1) 6,
     new_vtx (0, - (11547 / 10000)) 6 (5, 0) 6]"

definition outer_vertices :: "DirichVtx list" where
  "outer_vertices =
    [(new_vtx (2, 11547 / 10000) 1 (2, - 1) 0)\<lparr>onBoundary := True\<rparr>,
     (new_vtx (2, - (11547 / 10000)) 1 (- 1, 6) 0)\<lparr>onBoundary := True\<rparr>,
     new_vtx (1, 11547 / 20000) 1 (0, 2) 0,
     new_vtx (1, - (11547 / 20000)) 1 (6, 0) 0,
     (new_vtx (0, 11547 / 5000) 2 (3, - 1) 1)\<lparr>onBoundary := True\<rparr>,
     (new_vtx (2, 11547 / 10000) 2 (- 1, 1) 1)\<lparr>onBoundary := True\<rparr>,
     new_vtx (0, 11547 / 10000) 2 (0, 3) 1,
     new_vtx (1, 11547 / 20000) 2 (1, 0) 1,
     (new_vtx (0, 11547 / 5000) 3 (- 1, 2) 2)\<lparr>onBoundary := True\<rparr>,
     (new_vtx (- 2, 11547 / 10000) 3 (4, - 1) 2)\<lparr>onBoundary := True\<rparr>,
     new_vtx (- 1, 11547 / 20000) 3 (0, 4) 2,
     new_vtx (0, 11547 / 10000) 3 (2, 0) 2,
     (new_vtx (- 2, 11547 / 10000) 4 (- 1, 3) 3)\<lparr>onBoundary := True\<rparr>,
     (new_vtx (- 2, - (11547 / 10000)) 4 (5, - 1) 3)\<lparr>onBoundary := True\<rparr>,
     new_vtx (- 1, 11547 / 20000) 4 (3, 0) 3,
     new_vtx (- 1, - (11547 / 20000)) 4 (0, 5) 3,
     (new_vtx (0, - (11547 / 5000)) 5 (6, - 1) 4)\<lparr>onBoundary := True\<rparr>,
     (new_vtx (- 2, - (11547 / 10000)) 5 (- 1, 4) 4)\<lparr>onBoundary := True\<rparr>,
     new_vtx (0, - (11547 / 10000)) 5 (0, 6) 4,
     new_vtx (- 1, - (11547 / 20000)) 5 (4, 0) 4,
     (new_vtx (2, - (11547 / 10000)) 6 (1, - 1) 5)\<lparr>onBoundary := True\<rparr>,
     (new_vtx (0, - (11547 / 5000)) 6 (- 1, 5) 5)\<lparr>onBoundary := True\<rparr>,
     new_vtx (1, - (11547 / 20000)) 6 (0, 1) 5,
     new_vtx (0, - (11547 / 10000)) 6 (5, 0) 5,
     new_vtx (1, 11547 / 20000) 0 (2, 1) 6,
     new_vtx (0, 11547 / 10000) 0 (3, 2) 6,
     new_vtx (- 1, 11547 / 20000) 0 (4, 3) 6,
     new_vtx (- 1, - (11547 / 20000)) 0 (5, 4) 6,
     new_vtx (0, - (11547 / 10000)) 0 (6, 5) 6,
     new_vtx (1, - (11547 / 20000)) 0 (1, 6) 6]"



text \<open>A vertex at the corner shared by the centre and the cells E and NE of \<open>flower_grid\<close>,
  owned by the cell E, whose domain identity 7 no cell carries.\<close>

definition stray_vtx :: DirichVtx where
  "stray_vtx = new_vtx (1, 11547 / 20000) 7 (2, 0) 1"

text \<open>Two more identity fields over \<open>flower_grid\<close>. In \<open>ridge_ids\<close> the centre and the cell W
  carry 0 and the cells NE and NW carry 2, so that the edge between the identities 0 and 2
  runs along two cells on either side. In \<open>ring_ids\<close> the centre carries 0, the cell E
  carries 1 and the five other cells carry 2.\<close>

definition ridge_ids :: "real list" where
  "ridge_ids = [0, 1, 2, 2, 0, 5, 6]"


subsection \<open>Domain closure\<close>

text \<open>The search of \<open>process_domain\<close> through the candidate list for the next vertex: the
  position of the first candidate that is not closed, lies at \<open>next_vtx\<close> and has the
  identities asked for. The second argument is the position of the head of the list.\<close>

definition vtx_matches :: "HexGrid \<Rightarrow> coord \<Rightarrow> DirichVtx \<Rightarrow> real \<Rightarrow> DirichVtx \<Rightarrow> bool" where
  "vtx_matches hg next_vtx v next_neighb_dom dv2 =
     (closed dv2 = False \<and> vtx_compare hg dv2 next_vtx
      \<and> vtx_f dv2 = vtx_f v
      \<and> snd (neighb dv2) = fst (neighb v)
      \<and> fst (neighb dv2) = next_neighb_dom)"

fun find_match :: "HexGrid \<Rightarrow> nat \<Rightarrow> coord \<Rightarrow> DirichVtx \<Rightarrow> real \<Rightarrow> DirichVtx list \<Rightarrow> nat option" where
  "find_match hg k next_vtx v next_neighb_dom [] = None"
| "find_match hg k next_vtx v next_neighb_dom (dv2 # rest) =
     (if vtx_matches hg next_vtx v next_neighb_dom dv2 then Some k
      else find_match hg (Suc k) next_vtx v next_neighb_dom rest)"

definition mark_closed :: "DirichVtx list \<Rightarrow> nat \<Rightarrow> DirichVtx list" where
  "mark_closed vertices dv = vertices[dv := (vertices ! dv)\<lparr>closed := True\<rparr>]"

definition open_count :: "DirichVtx list \<Rightarrow> nat" where
  "open_count vertices = length (filter (\<lambda>d. \<not> closed d) vertices)"

lemma find_match_Some:
  "find_match hg k next_vtx v nnd vs = Some p \<Longrightarrow>
     k \<le> p \<and> p - k < length vs \<and> vtx_matches hg next_vtx v nnd (vs ! (p - k))"
proof (induction vs arbitrary: k)
  case Nil
  then show ?case by simp
next
  case (Cons d ds)
  show ?case
  proof (cases "vtx_matches hg next_vtx v nnd d")
    case True
    with Cons.prems show ?thesis by simp
  next
    case False
    with Cons.prems have "find_match hg (Suc k) next_vtx v nnd ds = Some p" by simp
    from Cons.IH [OF this] show ?thesis by (auto simp: Suc_diff_le)
  qed
qed

lemma open_count_pos:
  assumes "p < length vs" and "\<not> closed (vs ! p)"
  shows "0 < open_count vs"
proof -
  have "vs ! p \<in> set (filter (\<lambda>d. \<not> closed d) vs)"
    using assms by simp
  then show ?thesis
    unfolding open_count_def by (rule length_pos_if_in_set)
qed

lemma open_count_mark_closed:
  "open_count (mark_closed vs dv) =
     (if dv < length vs \<and> \<not> closed (vs ! dv) then open_count vs - 1 else open_count vs)"
proof (induction vs arbitrary: dv)
  case Nil
  show ?case by (simp add: open_count_def mark_closed_def)
next
  case (Cons d ds)
  show ?case
  proof (cases dv)
    case 0
    then show ?thesis by (simp add: open_count_def mark_closed_def)
  next
    case (Suc m)
    have pos: "m < length ds \<Longrightarrow> \<not> closed (ds ! m) \<Longrightarrow> 0 < open_count ds"
      by (rule open_count_pos)
    from Cons.IH [of m] have ih: "length (filter (\<lambda>d. \<not> closed d) (ds[m := (ds ! m)\<lparr>closed := True\<rparr>]))
        = (if m < length ds \<and> \<not> closed (ds ! m) then open_count ds - 1 else open_count ds)"
      by (simp add: open_count_def mark_closed_def)
    show ?thesis using Suc ih pos by (auto simp: open_count_def mark_closed_def)
  qed
qed

text \<open>
  \<open>process_domain\<close>. The iterator \<open>dv\<close> is a position in the candidate list; the function
  returns the success flag, the candidate list, the domain and \<open>next_neighb_coord\<close>, the
  three that the source updates through references. An exception of the walk passes through.
\<close>

function process_domain :: "nat \<Rightarrow> HexGrid \<Rightarrow> real list \<Rightarrow> nat \<Rightarrow> DirichVtx list \<Rightarrow> DirichVtx list
                  \<Rightarrow> DirichVtx \<Rightarrow> coord
                  \<Rightarrow> error + (bool \<times> DirichVtx list \<times> DirichVtx list \<times> coord)" where
  "process_domain fuel hg f dv vertices domain first_vtx next_neighb_coord =
     (case walk_to_next fuel hg f (vertices ! dv) flt_max next_neighb_coord of
        Inl e \<Rightarrow> Inl e
      | Inr (next_vtx, v, next_neighb_dom, nnc) \<Rightarrow>
          if \<not> vtx_compare hg (if unset first_vtx then vertices ! dv else first_vtx) next_vtx
          then (case find_match hg 0 next_vtx v next_neighb_dom (mark_closed vertices dv) of
                  None \<Rightarrow> Inr (False, mark_closed vertices dv, domain @ [v], nnc)
                | Some dv2 \<Rightarrow>
                    if onBoundary (mark_closed vertices dv ! dv2) = False
                    then process_domain fuel hg f dv2 (mark_closed vertices dv) (domain @ [v])
                           (if unset first_vtx then vertices ! dv else first_vtx) nnc
                    else Inr (False, mark_closed vertices dv, domain @ [v], nnc))
          else Inr (True, mark_closed vertices dv, domain @ [v], nnc))"
  by pat_completeness auto
termination
proof (relation "measure (\<lambda>(fuel, hg, f, dv, vertices, domain, first_vtx, nnc).
          open_count vertices + (if dv < length vertices \<and> \<not> closed (vertices ! dv) then 0 else 1))")
  show "wf (measure (\<lambda>(fuel, hg, f, dv, vertices, domain, first_vtx, nnc).
          open_count vertices + (if dv < length vertices \<and> \<not> closed (vertices ! dv) then 0 else 1)))"
    by simp
next
  fix fuel :: nat and hg :: HexGrid and f :: "real list" and dv :: nat
    and vertices domain :: "DirichVtx list" and first_vtx :: DirichVtx and next_neighb_coord nnc :: coord
    and v :: DirichVtx and next_vtx :: coord and next_neighb_dom :: real and dv2 :: nat
  assume "find_match hg 0 next_vtx v next_neighb_dom (mark_closed vertices dv) = Some dv2"
  from find_match_Some [OF this]
  have lt: "dv2 < length (mark_closed vertices dv)" and op: "\<not> closed (mark_closed vertices dv ! dv2)"
    by (simp_all add: vtx_matches_def)
  from open_count_pos [OF lt op] have pos: "0 < open_count (mark_closed vertices dv)" .
  have "open_count (mark_closed vertices dv) <
          open_count vertices + (if dv < length vertices \<and> \<not> closed (vertices ! dv) then 0 else 1)"
    using pos by (simp add: open_count_mark_closed split: if_splits)
  then show "((fuel, hg, f, dv2, mark_closed vertices dv, domain @ [v],
               if unset first_vtx then vertices ! dv else first_vtx, nnc),
              (fuel, hg, f, dv, vertices, domain, first_vtx, next_neighb_coord))
             \<in> measure (\<lambda>(fuel, hg, f, dv, vertices, domain, first_vtx, nnc).
                  open_count vertices + (if dv < length vertices \<and> \<not> closed (vertices ! dv) then 0 else 1))"
    using lt op by simp
qed

declare process_domain.simps [simp del]

text \<open>
  The positions on which the calls of one chain of \<open>process_domain\<close> work, outermost first:
  the same recursion, recording \<open>dv\<close> instead of the result. Its length is the recursion
  depth.
\<close>

function pd_calls :: "nat \<Rightarrow> HexGrid \<Rightarrow> real list \<Rightarrow> nat \<Rightarrow> DirichVtx list \<Rightarrow> DirichVtx list
                  \<Rightarrow> DirichVtx \<Rightarrow> coord \<Rightarrow> nat list" where
  "pd_calls fuel hg f dv vertices domain first_vtx next_neighb_coord =
     (case walk_to_next fuel hg f (vertices ! dv) flt_max next_neighb_coord of
        Inl e \<Rightarrow> [dv]
      | Inr (next_vtx, v, next_neighb_dom, nnc) \<Rightarrow>
          if \<not> vtx_compare hg (if unset first_vtx then vertices ! dv else first_vtx) next_vtx
          then (case find_match hg 0 next_vtx v next_neighb_dom (mark_closed vertices dv) of
                  None \<Rightarrow> [dv]
                | Some dv2 \<Rightarrow>
                    if onBoundary (mark_closed vertices dv ! dv2) = False
                    then dv # pd_calls fuel hg f dv2 (mark_closed vertices dv) (domain @ [v])
                           (if unset first_vtx then vertices ! dv else first_vtx) nnc
                    else [dv])
          else [dv])"
  by pat_completeness auto
termination
proof (relation "measure (\<lambda>(fuel, hg, f, dv, vertices, domain, first_vtx, nnc).
          open_count vertices + (if dv < length vertices \<and> \<not> closed (vertices ! dv) then 0 else 1))")
  show "wf (measure (\<lambda>(fuel, hg, f, dv, vertices, domain, first_vtx, nnc).
          open_count vertices + (if dv < length vertices \<and> \<not> closed (vertices ! dv) then 0 else 1)))"
    by simp
next
  fix fuel :: nat and hg :: HexGrid and f :: "real list" and dv :: nat
    and vertices domain :: "DirichVtx list" and first_vtx :: DirichVtx and next_neighb_coord nnc :: coord
    and v :: DirichVtx and next_vtx :: coord and next_neighb_dom :: real and dv2 :: nat
  assume "find_match hg 0 next_vtx v next_neighb_dom (mark_closed vertices dv) = Some dv2"
  from find_match_Some [OF this]
  have lt: "dv2 < length (mark_closed vertices dv)" and op: "\<not> closed (mark_closed vertices dv ! dv2)"
    by (simp_all add: vtx_matches_def)
  from open_count_pos [OF lt op] have pos: "0 < open_count (mark_closed vertices dv)" .
  have "open_count (mark_closed vertices dv) <
          open_count vertices + (if dv < length vertices \<and> \<not> closed (vertices ! dv) then 0 else 1)"
    using pos by (simp add: open_count_mark_closed split: if_splits)
  then show "((fuel, hg, f, dv2, mark_closed vertices dv, domain @ [v],
               if unset first_vtx then vertices ! dv else first_vtx, nnc),
              (fuel, hg, f, dv, vertices, domain, first_vtx, next_neighb_coord))
             \<in> measure (\<lambda>(fuel, hg, f, dv, vertices, domain, first_vtx, nnc).
                  open_count vertices + (if dv < length vertices \<and> \<not> closed (vertices ! dv) then 0 else 1))"
    using lt op by simp
qed

declare pd_calls.simps [simp del]

text \<open>
  The closure loop of \<open>dirichlet_vertices\<close>. Beside the domains and the candidate list it
  returns the positions on which it called \<open>process_domain\<close>, in order.
\<close>

function closure_loop :: "nat \<Rightarrow> HexGrid \<Rightarrow> real list \<Rightarrow> nat \<Rightarrow> nat \<Rightarrow> DirichVtx list \<Rightarrow> DirichVtx list list
                  \<Rightarrow> nat list \<Rightarrow> error + (DirichVtx list list \<times> DirichVtx list \<times> nat list)" where
  "closure_loop fuel hg f dv domcount vertices dirich_domains called =
     (if dv < length vertices \<and> domcount < 3
      then (if boundaryHex (hexen hg ! hi (vertices ! dv)) = True
            then closure_loop fuel hg f (dv + 1) (domcount + 1) (mark_closed vertices dv)
                   dirich_domains called
            else (case process_domain fuel hg f dv vertices [] default_vtx (flt_max, flt_max) of
                    Inl e \<Rightarrow> Inl e
                  | Inr (success, vertices', one_domain, nnc) \<Rightarrow>
                      closure_loop fuel hg f (dv + 1) (domcount + 1) vertices'
                        (if success then dirich_domains @ [one_domain] else dirich_domains)
                        (called @ [dv])))
      else Inr (dirich_domains, vertices, called))"
  by pat_completeness auto
termination
  by (relation "measure (\<lambda>(fuel, hg, f, dv, domcount, vertices, dirich_domains, called). 3 - domcount)") auto

declare closure_loop.simps [simp del]

definition scan_vertices :: "HexGrid \<Rightarrow> real list \<Rightarrow> DirichVtx list \<Rightarrow> DirichVtx list" where
  "scan_vertices hg f vertices = foldl (\<lambda>vs h. vertex_test hg f h vs) vertices [0..<length (hexen hg)]"

text \<open>\<open>dirichlet_vertices\<close> returns the domains; the candidate list is its reference
  argument \<open>vertices\<close>.\<close>

definition dirichlet_vertices :: "nat \<Rightarrow> HexGrid \<Rightarrow> real list \<Rightarrow> DirichVtx list
                  \<Rightarrow> error + (DirichVtx list list \<times> DirichVtx list)" where
  "dirichlet_vertices fuel hg f vertices =
     (case closure_loop fuel hg f 0 0 (scan_vertices hg f vertices) [] [] of
        Inl e \<Rightarrow> Inl e
      | Inr (dirich_domains, vertices', called) \<Rightarrow> Inr (dirich_domains, vertices'))"

section \<open>The concrete grids, field by field\<close>

lemma fl_C_sel:
  "vi fl_C = 0"
  "hex_x fl_C = 0"
  "hex_y fl_C = 0"
  "boundaryHex fl_C = False"
  "hex_onBoundary fl_C = False"
  "hex_LR fl_C = 11547 / 10000"
  "nbrs fl_C = [Some 1, Some 2, Some 3, Some 4, Some 5, Some 6]"
  "vertex_coords fl_C = [(1, 11547 / 20000), (0, 11547 / 10000), (- 1, 11547 / 20000), (- 1, - (11547 / 20000)), (0, - (11547 / 10000)), (1, - (11547 / 20000))]"
  by (simp_all add: fl_C_def)

lemma fl_E_sel:
  "vi fl_E = 1"
  "hex_x fl_E = 2"
  "hex_y fl_E = 0"
  "boundaryHex fl_E = True"
  "hex_onBoundary fl_E = True"
  "hex_LR fl_E = 11547 / 10000"
  "nbrs fl_E = [None, None, Some 2, Some 0, Some 6, None]"
  "vertex_coords fl_E = [(3, 11547 / 20000), (2, 11547 / 10000), (1, 11547 / 20000), (1, - (11547 / 20000)), (2, - (11547 / 10000)), (3, - (11547 / 20000))]"
  by (simp_all add: fl_E_def)

lemma fl_NE_sel:
  "vi fl_NE = 2"
  "hex_x fl_NE = 1"
  "hex_y fl_NE = 34641 / 20000"
  "boundaryHex fl_NE = True"
  "hex_onBoundary fl_NE = True"
  "hex_LR fl_NE = 11547 / 10000"
  "nbrs fl_NE = [None, None, None, Some 3, Some 0, Some 1]"
  "vertex_coords fl_NE = [(2, 11547 / 5000), (1, 11547 / 4000), (0, 11547 / 5000), (0, 11547 / 10000), (1, 11547 / 20000), (2, 11547 / 10000)]"
  by (simp_all add: fl_NE_def)

lemma fl_NW_sel:
  "vi fl_NW = 3"
  "hex_x fl_NW = - 1"
  "hex_y fl_NW = 34641 / 20000"
  "boundaryHex fl_NW = True"
  "hex_onBoundary fl_NW = True"
  "hex_LR fl_NW = 11547 / 10000"
  "nbrs fl_NW = [Some 2, None, None, None, Some 4, Some 0]"
  "vertex_coords fl_NW = [(0, 11547 / 5000), (- 1, 11547 / 4000), (- 2, 11547 / 5000), (- 2, 11547 / 10000), (- 1, 11547 / 20000), (0, 11547 / 10000)]"
  by (simp_all add: fl_NW_def)

lemma fl_W_sel:
  "vi fl_W = 4"
  "hex_x fl_W = - 2"
  "hex_y fl_W = 0"
  "boundaryHex fl_W = True"
  "hex_onBoundary fl_W = True"
  "hex_LR fl_W = 11547 / 10000"
  "nbrs fl_W = [Some 0, Some 3, None, None, None, Some 5]"
  "vertex_coords fl_W = [(- 1, 11547 / 20000), (- 2, 11547 / 10000), (- 3, 11547 / 20000), (- 3, - (11547 / 20000)), (- 2, - (11547 / 10000)), (- 1, - (11547 / 20000))]"
  by (simp_all add: fl_W_def)

lemma fl_SW_sel:
  "vi fl_SW = 5"
  "hex_x fl_SW = - 1"
  "hex_y fl_SW = - (34641 / 20000)"
  "boundaryHex fl_SW = True"
  "hex_onBoundary fl_SW = True"
  "hex_LR fl_SW = 11547 / 10000"
  "nbrs fl_SW = [Some 6, Some 0, Some 4, None, None, None]"
  "vertex_coords fl_SW = [(0, - (11547 / 10000)), (- 1, - (11547 / 20000)), (- 2, - (11547 / 10000)), (- 2, - (11547 / 5000)), (- 1, - (11547 / 4000)), (0, - (11547 / 5000))]"
  by (simp_all add: fl_SW_def)

lemma fl_SE_sel:
  "vi fl_SE = 6"
  "hex_x fl_SE = 1"
  "hex_y fl_SE = - (34641 / 20000)"
  "boundaryHex fl_SE = True"
  "hex_onBoundary fl_SE = True"
  "hex_LR fl_SE = 11547 / 10000"
  "nbrs fl_SE = [None, Some 1, Some 0, Some 5, None, None]"
  "vertex_coords fl_SE = [(2, - (11547 / 10000)), (1, - (11547 / 20000)), (0, - (11547 / 10000)), (0, - (11547 / 5000)), (1, - (11547 / 4000)), (2, - (11547 / 5000))]"
  by (simp_all add: fl_SE_def)

lemma flower_grid_sel:
  "hexen flower_grid = [fl_C, fl_E, fl_NE, fl_NW, fl_W, fl_SW, fl_SE]"
  "tol flower_grid = 1 / 100000"
  "grid_d flower_grid = 2"
  by (simp_all add: flower_grid_def)

lemmas flower_grid_simps = flower_grid_sel fl_C_sel fl_E_sel fl_NE_sel fl_NW_sel fl_W_sel fl_SW_sel fl_SE_sel

lemma ofl_E_sel:
  "vi ofl_E = 0"
  "hex_x ofl_E = 2"
  "hex_y ofl_E = 0"
  "boundaryHex ofl_E = True"
  "hex_onBoundary ofl_E = True"
  "hex_LR ofl_E = 11547 / 10000"
  "nbrs ofl_E = [None, None, Some 1, Some 6, Some 5, None]"
  "vertex_coords ofl_E = [(3, 11547 / 20000), (2, 11547 / 10000), (1, 11547 / 20000), (1, - (11547 / 20000)), (2, - (11547 / 10000)), (3, - (11547 / 20000))]"
  by (simp_all add: ofl_E_def)

lemma ofl_NE_sel:
  "vi ofl_NE = 1"
  "hex_x ofl_NE = 1"
  "hex_y ofl_NE = 34641 / 20000"
  "boundaryHex ofl_NE = True"
  "hex_onBoundary ofl_NE = True"
  "hex_LR ofl_NE = 11547 / 10000"
  "nbrs ofl_NE = [None, None, None, Some 2, Some 6, Some 0]"
  "vertex_coords ofl_NE = [(2, 11547 / 5000), (1, 11547 / 4000), (0, 11547 / 5000), (0, 11547 / 10000), (1, 11547 / 20000), (2, 11547 / 10000)]"
  by (simp_all add: ofl_NE_def)

lemma ofl_NW_sel:
  "vi ofl_NW = 2"
  "hex_x ofl_NW = - 1"
  "hex_y ofl_NW = 34641 / 20000"
  "boundaryHex ofl_NW = True"
  "hex_onBoundary ofl_NW = True"
  "hex_LR ofl_NW = 11547 / 10000"
  "nbrs ofl_NW = [Some 1, None, None, None, Some 3, Some 6]"
  "vertex_coords ofl_NW = [(0, 11547 / 5000), (- 1, 11547 / 4000), (- 2, 11547 / 5000), (- 2, 11547 / 10000), (- 1, 11547 / 20000), (0, 11547 / 10000)]"
  by (simp_all add: ofl_NW_def)

lemma ofl_W_sel:
  "vi ofl_W = 3"
  "hex_x ofl_W = - 2"
  "hex_y ofl_W = 0"
  "boundaryHex ofl_W = True"
  "hex_onBoundary ofl_W = True"
  "hex_LR ofl_W = 11547 / 10000"
  "nbrs ofl_W = [Some 6, Some 2, None, None, None, Some 4]"
  "vertex_coords ofl_W = [(- 1, 11547 / 20000), (- 2, 11547 / 10000), (- 3, 11547 / 20000), (- 3, - (11547 / 20000)), (- 2, - (11547 / 10000)), (- 1, - (11547 / 20000))]"
  by (simp_all add: ofl_W_def)

lemma ofl_SW_sel:
  "vi ofl_SW = 4"
  "hex_x ofl_SW = - 1"
  "hex_y ofl_SW = - (34641 / 20000)"
  "boundaryHex ofl_SW = True"
  "hex_onBoundary ofl_SW = True"
  "hex_LR ofl_SW = 11547 / 10000"
  "nbrs ofl_SW = [Some 5, Some 6, Some 3, None, None, None]"
  "vertex_coords ofl_SW = [(0, - (11547 / 10000)), (- 1, - (11547 / 20000)), (- 2, - (11547 / 10000)), (- 2, - (11547 / 5000)), (- 1, - (11547 / 4000)), (0, - (11547 / 5000))]"
  by (simp_all add: ofl_SW_def)

lemma ofl_SE_sel:
  "vi ofl_SE = 5"
  "hex_x ofl_SE = 1"
  "hex_y ofl_SE = - (34641 / 20000)"
  "boundaryHex ofl_SE = True"
  "hex_onBoundary ofl_SE = True"
  "hex_LR ofl_SE = 11547 / 10000"
  "nbrs ofl_SE = [None, Some 0, Some 6, Some 4, None, None]"
  "vertex_coords ofl_SE = [(2, - (11547 / 10000)), (1, - (11547 / 20000)), (0, - (11547 / 10000)), (0, - (11547 / 5000)), (1, - (11547 / 4000)), (2, - (11547 / 5000))]"
  by (simp_all add: ofl_SE_def)

lemma ofl_C_sel:
  "vi ofl_C = 6"
  "hex_x ofl_C = 0"
  "hex_y ofl_C = 0"
  "boundaryHex ofl_C = False"
  "hex_onBoundary ofl_C = False"
  "hex_LR ofl_C = 11547 / 10000"
  "nbrs ofl_C = [Some 0, Some 1, Some 2, Some 3, Some 4, Some 5]"
  "vertex_coords ofl_C = [(1, 11547 / 20000), (0, 11547 / 10000), (- 1, 11547 / 20000), (- 1, - (11547 / 20000)), (0, - (11547 / 10000)), (1, - (11547 / 20000))]"
  by (simp_all add: ofl_C_def)

lemma outer_first_grid_sel:
  "hexen outer_first_grid = [ofl_E, ofl_NE, ofl_NW, ofl_W, ofl_SW, ofl_SE, ofl_C]"
  "tol outer_first_grid = 1 / 100000"
  "grid_d outer_first_grid = 2"
  by (simp_all add: outer_first_grid_def)

lemmas outer_first_grid_simps = outer_first_grid_sel ofl_E_sel ofl_NE_sel ofl_NW_sel ofl_W_sel ofl_SW_sel ofl_SE_sel ofl_C_sel

lemma upt6: "[0..<6] = [0, 1, 2, 3, 4, 5]"
  by (simp add: upt_rec)

lemma upt7: "[0..<7] = [0, 1, 2, 3, 4, 5, 6]"
  by (simp add: upt_rec)

section \<open>The walks leave the vertex as it is, but for the path\<close>



section \<open>Properties of vertex detection and domain closure: auxiliary facts\<close>

lemma mark_closed_length [simp]: "length (mark_closed vs dv) = length vs"
  by (simp add: mark_closed_def)
























section \<open>Evaluating the walks on concrete grids\<close>

lemma correct_distance_iff:
  assumes "0 < hex_LR h + 1 / 1000"
  shows "correct_distance h nb v =
         ((hex_x nb - fst v) * (hex_x nb - fst v) + (hex_y nb - snd v) * (hex_y nb - snd v)
            < (hex_LR h + 1 / 1000) * (hex_LR h + 1 / 1000))"
proof -
  let ?a = "(hex_x nb - fst v) * (hex_x nb - fst v) + (hex_y nb - snd v) * (hex_y nb - snd v)"
  have "sqrt ?a - hex_LR h < 1 / 1000 \<longleftrightarrow> sqrt ?a < hex_LR h + 1 / 1000" by linarith
  also have "\<dots> \<longleftrightarrow> sqrt ?a < sqrt ((hex_LR h + 1 / 1000)\<^sup>2)" using assms by simp
  also have "\<dots> \<longleftrightarrow> ?a < (hex_LR h + 1 / 1000)\<^sup>2" by (rule real_sqrt_less_iff)
  finally show ?thesis by (simp add: correct_distance_def Let_def power2_eq_square)
qed

lemma rot_dirns_numeral:
  "rot_dirns (numeral k) rot j l = (if j = l then [] else j # rot_dirns (pred_numeral k) rot (next_j rot j) l)"
  by (simp add: numeral_eq_Suc)

lemma walk_loop_numeral:
  "walk_loop (numeral k) hg f ed nnc st =
     (case walk_round hg f ed nnc st of
        Inl e \<Rightarrow> Inl e
      | Inr (Inl done) \<Rightarrow> Inr done
      | Inr (Inr st') \<Rightarrow> walk_loop (pred_numeral k) hg f ed nnc st')"
  by (simp add: numeral_eq_Suc)

lemmas grid_defs = has_neighbour_def get_neighbour_def neighbour_pos_def get_vertex_coord_def
  prev_dirn_def Let_def upt6

lemmas vt_defs = vertex_test_def n_ids_def boundary_step_def internal_step_def new_vtx_def

lemmas walk_defs = walk_to_next_def walk_common_def seed_first_def correct_distance_iff
  compare_vertex_coord_def coord_close_def find_second_def second_ok_def compare_coord_def
  rotation_def last_j_def next_j_def rot_dirns_numeral walk_loop_numeral walk_round_def
  nbr_at_def flt_max_def int_max_def

lemmas pd_defs = process_domain.simps mark_closed_def vtx_matches_def
  vtx_compare_def unset_def default_vtx_def new_vtx_def


lemma outer_scan: "scan_vertices outer_first_grid outer_ids [] = outer_vertices"
  by (simp add: scan_vertices_def vt_defs grid_defs outer_first_grid_simps outer_ids_def upt7 outer_vertices_def)

lemmas flower_walk_eval = pd_defs walk_defs grid_defs flower_grid_simps

lemmas flower_eval = pd_defs walk_defs grid_defs flower_grid_simps flower_ids_def flower_vertices_def
lemmas outer_eval = pd_defs walk_defs grid_defs outer_first_grid_simps outer_ids_def outer_vertices_def


lemma flower_pd_calls:
  "pd_calls 4 flower_grid flower_ids 0 flower_vertices [] default_vtx (flt_max, flt_max) = [0, 1, 2, 3, 4, 5]"
  by (simp add: pd_calls.simps flower_eval)


lemma outer_closure:
  "closure_loop 4 outer_first_grid outer_ids 0 0 outer_vertices [] []
     = Inr ([], mark_closed (mark_closed (mark_closed outer_vertices 0) 1) 2, [])"
  by (simp add: closure_loop.simps outer_eval)




lemma ridge_round:
  "walk_round flower_grid ridge_ids (0, 2) (1, 34641 / 20000) (0, 1, (1, 11547 / 20000), [])
     = Inr (Inr (4, 0, (- 1, 11547 / 20000), [(1, 11547 / 20000), (0, 11547 / 10000)]))"
  by (simp add: flower_walk_eval ridge_ids_def)

lemma ridge_second_round:
  "walk_loop (Suc 0) flower_grid ridge_ids (0, 2) (1, 34641 / 20000)
      (4, 0, (- 1, 11547 / 20000), [(1, 11547 / 20000), (0, 11547 / 10000)]) = Inl SecondHexNotFound"
  by (simp add: flower_walk_eval ridge_ids_def)


section \<open>Properties of contour extraction\<close>

lemma neighbour_below_iff:
  "neighbour_below hg nf t h \<longleftrightarrow> (\<exists>ni < 6. has_neighbour h ni \<and> nf ! vi (get_neighbour hg h ni) < t)"
proof -
  have lt6: "\<And>n::nat. n < 6 \<longleftrightarrow> n = 0 \<or> n = 1 \<or> n = 2 \<or> n = 3 \<or> n = 4 \<or> n = 5"
    by arith
  have six: "\<And>P. (\<exists>ni < (6::nat). P ni) \<longleftrightarrow> (P 0 \<or> P 1 \<or> P 2 \<or> P 3 \<or> P 4 \<or> P 5)"
    unfolding lt6 by blast
  show ?thesis unfolding neighbour_below_def by (subst six) simp
qed

lemma flower_norm: "norm_f flower_grid contour_ff = contour_ff"
  by (simp add: norm_f_def field_extrema_def flower_grid_simps contour_ff_def minmax_upd_def num_def upt_rec)

text \<open>
  C2, amended. For \<open>i < N\<close>, a cell \<open>h\<close> is in the collection that \<open>get_contours\<close> returns for
  field \<open>i\<close> if and only if it is a cell of the grid, its normalised value for field \<open>i\<close>
  exceeds the threshold, and it is on the boundary or at least one existing neighbour has a
  normalised value strictly below the threshold.
\<close>

theorem get_contours_member:
  assumes "i < length f" and "wf_grid hg" and "fields_fit hg f"
    and "fst (field_extrema hg f) \<noteq> snd (field_extrema hg f)"
  shows "h \<in> set (get_contours hg f threshold ! i) \<longleftrightarrow>
         h \<in> set (hexen hg) \<and> norm_f hg f ! i ! vi h > threshold \<and>
         (hex_onBoundary h \<or>
          (\<exists>ni < 6. has_neighbour h ni \<and> norm_f hg f ! i ! vi (get_neighbour hg h ni) < threshold))"
  using assms(1) by (auto simp: get_contours_def contour_member_def neighbour_below_iff)

theorem get_contours_member_witness:
  "hexen flower_grid ! 0 \<in> set (get_contours flower_grid contour_ff (3/4) ! 0)"
proof -
  have 1: "(0::nat) < length contour_ff" by (simp add: contour_ff_def)
  have 2: "wf_grid flower_grid"
    by (simp add: wf_grid_def flower_grid_simps num_def)
  have 3: "fields_fit flower_grid contour_ff"
    by (simp add: fields_fit_def flower_grid_simps num_def contour_ff_def)
  have 4: "fst (field_extrema flower_grid contour_ff) \<noteq> snd (field_extrema flower_grid contour_ff)"
    by (simp add: field_extrema_def flower_grid_simps contour_ff_def minmax_upd_def)
  have 5: "has_neighbour (hexen flower_grid ! 0) 0" by (simp add: has_neighbour_def flower_grid_simps)
  have 6: "norm_f flower_grid contour_ff ! 0 ! vi (get_neighbour flower_grid (hexen flower_grid ! 0) 0) < 3/4"
    unfolding flower_norm by (simp add: get_neighbour_def neighbour_pos_def flower_grid_simps contour_ff_def)
  have 7: "norm_f flower_grid contour_ff ! 0 ! vi (hexen flower_grid ! 0) > 3/4"
    unfolding flower_norm by (simp add: flower_grid_simps contour_ff_def)
  have 8: "hexen flower_grid ! 0 \<in> set (hexen flower_grid)" by (simp add: flower_grid_simps)
  have "\<exists>ni < 6. has_neighbour (hexen flower_grid ! 0) ni \<and>
      norm_f flower_grid contour_ff ! 0 ! vi (get_neighbour flower_grid (hexen flower_grid ! 0) ni) < 3/4"
    using 5 6 by (intro exI[of _ 0]) simp
  with 7 8 show ?thesis
    using get_contours_member [OF 1 2 3 4, of "hexen flower_grid ! 0" "3/4"] by blast
qed

text \<open>
  C2 as stated fails: with threshold \<open>1/2\<close> the centre cell of the flower grid has normalised
  value 1, is not on the boundary, and each of its six neighbours has normalised value exactly
  \<open>1/2\<close>; the source compares with \<open><\<close> and leaves the cell out.
\<close>

theorem get_contours_member_counterexample:
  "contour_claimed flower_grid (norm_f flower_grid contour_ff ! 0) (1/2) (hexen flower_grid ! 0)
   \<and> \<not> hex_onBoundary (hexen flower_grid ! 0)
   \<and> list_all (\<lambda>ni. has_neighbour (hexen flower_grid ! 0) ni \<and>
        norm_f flower_grid contour_ff ! 0 ! vi (get_neighbour flower_grid (hexen flower_grid ! 0) ni) = 1/2) [0..<6]
   \<and> hexen flower_grid ! 0 \<notin> set (get_contours flower_grid contour_ff (1/2) ! 0)"
proof -
  have a: "contour_claimed flower_grid (norm_f flower_grid contour_ff ! 0) (1/2) (hexen flower_grid ! 0)"
    unfolding flower_norm contour_claimed_def
    apply (rule conjI)
     apply (simp add: flower_grid_simps contour_ff_def)
    apply (rule disjI2)
    apply (rule exI[of _ 0])
    apply (simp add: flower_grid_simps contour_ff_def has_neighbour_def get_neighbour_def neighbour_pos_def)
    done
  have b: "\<not> hex_onBoundary (hexen flower_grid ! 0)" by (simp add: flower_grid_simps)
  have c: "list_all (\<lambda>ni. has_neighbour (hexen flower_grid ! 0) ni \<and>
        norm_f flower_grid contour_ff ! 0 ! vi (get_neighbour flower_grid (hexen flower_grid ! 0) ni) = 1/2) [0..<6]"
    unfolding flower_norm
    by (simp add: upt_rec flower_grid_simps contour_ff_def has_neighbour_def get_neighbour_def neighbour_pos_def)
  have d: "hexen flower_grid ! 0 \<notin> set (get_contours flower_grid contour_ff (1/2) ! 0)"
    unfolding get_contours_def flower_norm
    by (simp add: upt_rec contour_member_def neighbour_below_def flower_grid_simps contour_ff_def has_neighbour_def get_neighbour_def neighbour_pos_def)
  from a b c d show ?thesis by blast
qed


lemma foldl_minmax_upd:
  "foldl (\<lambda>a v. minmax_upd v a) (mx, mn) vs = (Max (set (mx # vs)), Min (set (mn # vs)))"
proof (induction vs arbitrary: mx mn)
  case Nil
  show ?case by simp
next
  case (Cons v vs)
  have ifmx: "(if mx < v then v else mx) = max mx v" by (simp add: max_def)
  have ifmn: "(if v < mn then v else mn) = min mn v" by (simp add: min_def)
  have mx: "Max (insert (max mx v) (set vs)) = Max (insert mx (insert v (set vs)))"
  proof (cases "vs = []")
    case True
    then show ?thesis by simp
  next
    case False
    then have "set vs \<noteq> {}" by simp
    then show ?thesis by (simp add: max.assoc)
  qed
  have mn: "Min (insert (min mn v) (set vs)) = Min (insert mn (insert v (set vs)))"
  proof (cases "vs = []")
    case True
    then show ?thesis by simp
  next
    case False
    then have "set vs \<noteq> {}" by simp
    then show ?thesis by (simp add: min.assoc)
  qed
  have "foldl (\<lambda>a v. minmax_upd v a) (mx, mn) (v # vs)
      = foldl (\<lambda>a v. minmax_upd v a) (max mx v, min mn v) vs"
    by (simp add: minmax_upd_def ifmx ifmn)
  also have "\<dots> = (Max (set (max mx v # vs)), Min (set (min mn v # vs)))"
    by (rule Cons.IH)
  also have "\<dots> = (Max (set (mx # v # vs)), Min (set (mn # v # vs)))"
    using mx mn by simp
  finally show ?case .
qed

lemma field_extrema_fold:
  "field_extrema hg f = foldl (\<lambda>a v. minmax_upd v a) (- 10000000, 10000000) (interior_values hg f)"
proof -
  have "foldl (\<lambda>acc h. if \<not> hex_onBoundary h
                     then foldl (\<lambda>a i. minmax_upd (f ! i ! vi h) a) acc [0..<length f]
                     else acc) acc0 hs
      = foldl (\<lambda>a v. minmax_upd v a) acc0 (field_values (filter (\<lambda>h. \<not> hex_onBoundary h) hs) f)"
    for acc0 hs
    by (induction hs arbitrary: acc0) (simp_all add: field_values_def foldl_map)
  then show ?thesis by (simp add: field_extrema_def interior_values_def)
qed

lemma field_extrema_Max_Min:
  assumes "interior_values hg f \<noteq> []"
    and "- 10000000 \<le> Max (set (interior_values hg f))"
    and "Min (set (interior_values hg f)) \<le> 10000000"
  shows "field_extrema hg f = (Max (set (interior_values hg f)), Min (set (interior_values hg f)))"
proof -
  have ne: "set (interior_values hg f) \<noteq> {}" using assms(1) by simp
  have "Max (insert (- 10000000) (set (interior_values hg f))) = Max (set (interior_values hg f))"
    using ne assms(2) by simp
  moreover have "Min (insert 10000000 (set (interior_values hg f))) = Min (set (interior_values hg f))"
    using ne assms(3) by simp
  ultimately show ?thesis by (simp add: field_extrema_fold foldl_minmax_upd)
qed

text \<open>
  C3, amended. The extrema used to normalise are taken over all fields and over the cells that
  are not on the boundary only: when such a cell exists, the maximum of these values is at
  least \<open>-1e7\<close>, their minimum at most \<open>1e7\<close> and the two differ, the normalised value of
  every field \<open>i\<close> at every vector index \<open>h\<close> of the grid (boundary cells included) is
  \<open>(f[i][h] - min) / (max - min)\<close>.
\<close>

theorem norm_f_interior_extrema:
  assumes "i < length f" and "h < num hg"
    and "interior_values hg f \<noteq> []"
    and "- 10000000 \<le> Max (set (interior_values hg f))"
    and "Min (set (interior_values hg f)) \<le> 10000000"
    and "Max (set (interior_values hg f)) \<noteq> Min (set (interior_values hg f))"
  shows "norm_f hg f ! i ! h =
         (f ! i ! h - Min (set (interior_values hg f))) /
         (Max (set (interior_values hg f)) - Min (set (interior_values hg f)))"
  using assms(1,2) by (simp add: norm_f_def field_extrema_Max_Min [OF assms(3-5)])

lemma flower_interior_values: "interior_values flower_grid norm_ff = [1, 0]"
  by (simp add: interior_values_def field_values_def flower_grid_simps norm_ff_def upt_rec)

theorem norm_f_interior_extrema_witness:
  "norm_f flower_grid norm_ff ! 0 ! 1 = 2"
proof -
  have 1: "(0::nat) < length norm_ff" by (simp add: norm_ff_def)
  have 2: "(1::nat) < num flower_grid" by (simp add: num_def flower_grid_simps)
  have 3: "interior_values flower_grid norm_ff \<noteq> []" by (simp add: flower_interior_values)
  have 4: "- 10000000 \<le> Max (set (interior_values flower_grid norm_ff))" by (simp add: flower_interior_values)
  have 5: "Min (set (interior_values flower_grid norm_ff)) \<le> 10000000" by (simp add: flower_interior_values)
  have 6: "Max (set (interior_values flower_grid norm_ff)) \<noteq> Min (set (interior_values flower_grid norm_ff))"
    by (simp add: flower_interior_values)
  show ?thesis
    using norm_f_interior_extrema [OF 1 2 3 4 5 6]
    unfolding flower_interior_values by (simp add: norm_ff_def)
qed

text \<open>
  C3 as stated fails: a boundary cell holding the largest value does not enter the maximum.
\<close>

theorem norm_f_global_extrema_counterexample:
  "norm_f flower_grid norm_ff ! 0 ! 1 \<noteq>
     (norm_ff ! 0 ! 1 - Min (set (field_values (hexen flower_grid) norm_ff))) /
     (Max (set (field_values (hexen flower_grid) norm_ff)) - Min (set (field_values (hexen flower_grid) norm_ff)))"
proof -
  have a: "norm_f flower_grid norm_ff ! 0 ! 1 = 2"
    by (simp add: norm_f_def field_extrema_def flower_grid_simps norm_ff_def minmax_upd_def num_def upt_rec)
  have b: "set (field_values (hexen flower_grid) norm_ff) = {0, 1, 2}"
    by (auto simp: field_values_def flower_grid_simps norm_ff_def upt_rec)
  have c: "norm_ff ! 0 ! 1 = 2" by (simp add: norm_ff_def)
  show ?thesis unfolding a b c by simp
qed


section \<open>Properties of region labelling\<close>

text \<open>The inner loop of \<open>dirichlet_regions\<close> over the first \<open>n\<close> fields.\<close>

lemma region_inner:
  fixes vals :: "nat \<Rightarrow> real"
  assumes step: "\<And>i m r. region_upd f h (m, r) i
                   = (if vals i > m then (vals i, r[vi h := real i / real (length f)]) else (m, r))"
  shows "foldl (region_upd f h) (m0, rtn) [0..<n] =
           (if \<exists>i < n. vals i > m0
            then (Max (vals ` {..<n}),
                  rtn[vi h := real (LEAST i. i < n \<and> vals i = Max (vals ` {..<n})) / real (length f)])
            else (m0, rtn))"
proof (induction n)
  case 0
  show ?case by simp
next
  case (Suc n)
  let ?M = "\<lambda>k. Max (vals ` {..<k})"
  let ?L = "\<lambda>k. LEAST i. i < k \<and> vals i = ?M k"
  have img: "vals ` {..<Suc n} = insert (vals n) (vals ` {..<n})"
    by (simp add: lessThan_Suc)
  show ?case
  proof (cases "\<exists>i < n. vals i > m0")
    case True
    then have ne: "vals ` {..<n} \<noteq> {}" by auto
    have fin: "finite (vals ` {..<n})" by simp
    have Mgt: "?M n > m0"
      using True by (metis Max_gr_iff fin ne imageI lessThan_iff)
    have Min: "?M n \<in> vals ` {..<n}" by (rule Max_in [OF fin ne])
    then obtain j where j: "j < n" "vals j = ?M n" by auto
    have MS: "?M (Suc n) = max (vals n) (?M n)"
      unfolding img by (rule Max_insert [OF fin ne])
    have ex: "\<exists>i < Suc n. vals i > m0" using True less_Suc_eq by blast
    show ?thesis
    proof (cases "vals n > ?M n")
      case gt: True
      then have M': "?M (Suc n) = vals n" using MS by simp
      have L': "?L (Suc n) = n"
      proof (rule Least_equality)
        show "n < Suc n \<and> vals n = ?M (Suc n)" using M' by simp
      next
        fix y assume y: "y < Suc n \<and> vals y = ?M (Suc n)"
        show "n \<le> y"
        proof (rule ccontr)
          assume "\<not> n \<le> y"
          then have "y < n" by simp
          then have "vals y \<le> ?M n" by (simp add: fin)
          with y M' gt show False by simp
        qed
      qed
      show ?thesis
        using gt True ex by (simp add: Suc.IH step M' L' L' [unfolded M'] del: Max_less_iff)
    next
      case le: False
      then have M': "?M (Suc n) = ?M n" using MS by simp
      have L': "?L (Suc n) = ?L n"
      proof (rule Least_equality)
        have "?L n < n \<and> vals (?L n) = ?M n"
          by (rule LeastI [of "\<lambda>i. i < n \<and> vals i = ?M n" j]) (simp add: j)
        then show "?L n < Suc n \<and> vals (?L n) = ?M (Suc n)" using M' by simp
      next
        fix y assume y: "y < Suc n \<and> vals y = ?M (Suc n)"
        show "?L n \<le> y"
        proof (cases "y < n")
          case True
          with y M' show ?thesis by (intro Least_le) simp
        next
          case False
          have "?L n < n"
            using LeastI [of "\<lambda>i. i < n \<and> vals i = ?M n" j] j by simp
          with False show ?thesis by simp
        qed
      qed
      show ?thesis
        using le True ex by (simp add: Suc.IH step M' L' L' [unfolded M'] del: Max_less_iff)
    qed
  next
    case none: False
    show ?thesis
    proof (cases "vals n > m0")
      case True
      then have ex: "\<exists>i < Suc n. vals i > m0" by blast
      have lt: "\<And>i. i < n \<Longrightarrow> vals i < vals n" using none True by force
      have M': "?M (Suc n) = vals n"
        unfolding img by (rule Max_eqI) (use lt in \<open>auto simp: less_imp_le\<close>)
      have L': "?L (Suc n) = n"
      proof (rule Least_equality)
        show "n < Suc n \<and> vals n = ?M (Suc n)" using M' by simp
      next
        fix y assume y: "y < Suc n \<and> vals y = ?M (Suc n)"
        show "n \<le> y"
        proof (rule ccontr)
          assume "\<not> n \<le> y"
          then have "y < n" by simp
          from lt [OF this] y M' show False by simp
        qed
      qed
      have none': "(\<exists>i < n. vals i > m0) = False" using none by simp
      show ?thesis
        using True ex by (simp add: Suc.IH step M' L' L' [unfolded M'] none' del: Max_less_iff)
    next
      case False
      with none have "\<not> (\<exists>i < Suc n. vals i > m0)" using less_Suc_eq by auto
      then have noneS: "(\<exists>i < Suc n. vals i > m0) = False" by simp
      have none': "(\<exists>i < n. vals i > m0) = False" using none by simp
      have nf: "(vals n > m0) = False" using False by simp
      show ?thesis by (simp add: Suc.IH step noneS none' nf)
    qed
  qed
qed


lemma first_argmax_fields:
  "first_argmax (map (\<lambda>fi. fi ! k) f)
     = (LEAST i. i < length f \<and> f ! i ! k = Max ((\<lambda>i. f ! i ! k) ` {..<length f}))"
proof -
  have set: "set (map (\<lambda>fi. fi ! k) f) = (\<lambda>i. f ! i ! k) ` {..<length f}"
  proof (intro set_eqI iffI)
    fix x assume "x \<in> set (map (\<lambda>fi. fi ! k) f)"
    then obtain i where "i < length f" "x = f ! i ! k"
      by (auto simp: in_set_conv_nth)
    then show "x \<in> (\<lambda>i. f ! i ! k) ` {..<length f}" by simp
  next
    fix x assume "x \<in> (\<lambda>i. f ! i ! k) ` {..<length f}"
    then obtain i where i: "i < length f" "x = f ! i ! k" by auto
    then have "f ! i \<in> set f" by simp
    with i show "x \<in> set (map (\<lambda>fi. fi ! k) f)" by auto
  qed
  have "(\<lambda>i. i < length (map (\<lambda>fi. fi ! k) f) \<and> map (\<lambda>fi. fi ! k) f ! i = Max (set (map (\<lambda>fi. fi ! k) f)))
      = (\<lambda>i. i < length f \<and> f ! i ! k = Max ((\<lambda>i. f ! i ! k) ` {..<length f}))"
    unfolding set by (rule ext) auto
  then show ?thesis unfolding first_argmax_def by simp
qed

lemma first_argmax_less:
  assumes "f \<noteq> []"
  shows "first_argmax (map (\<lambda>fi. fi ! k) f) < length f"
proof -
  let ?S = "(\<lambda>i. f ! i ! k) ` {..<length f}"
  have "finite ?S" by simp
  moreover have "?S \<noteq> {}" using assms by auto
  ultimately have "Max ?S \<in> ?S" by (rule Max_in)
  then obtain j where j: "j < length f \<and> f ! j ! k = Max ?S" by auto
  from LeastI [of "\<lambda>i. i < length f \<and> f ! i ! k = Max ?S" j, OF j]
  show ?thesis unfolding first_argmax_fields by simp
qed

lemma region_one_cell:
  "snd (foldl (region_upd f h) (- 10000000, rtn) [0..<length f])
     = (if \<exists>i < length f. f ! i ! vi h > - 10000000
        then rtn[vi h := real (first_argmax (map (\<lambda>fi. fi ! vi h) f)) / real (length f)]
        else rtn)"
proof -
  have step: "\<And>i m r. region_upd f h (m, r) i
      = (if f ! i ! vi h > m then (f ! i ! vi h, r[vi h := real i / real (length f)]) else (m, r))"
    by (simp add: region_upd_def)
  show ?thesis
  proof (cases "\<exists>i < length f. f ! i ! vi h > - 10000000")
    case True
    then show ?thesis
      by (simp only: region_inner [of f h "\<lambda>i. f ! i ! vi h", OF step] first_argmax_fields if_True snd_conv)
  next
    case False
    then show ?thesis
      by (simp only: region_inner [of f h "\<lambda>i. f ! i ! vi h", OF step] if_False snd_conv)
  qed
qed

lemma regions_fold:
  assumes "\<forall>h \<in> set hs. vi h < length rtn0"
  shows "length (foldl (\<lambda>rtn h. snd (foldl (region_upd f h) (- 10000000, rtn) [0..<length f])) rtn0 hs)
           = length rtn0
         \<and> (\<forall>h \<in> set hs. (\<exists>i < length f. f ! i ! vi h > - 10000000) \<longrightarrow>
               foldl (\<lambda>rtn h. snd (foldl (region_upd f h) (- 10000000, rtn) [0..<length f])) rtn0 hs ! vi h
                 = real (first_argmax (map (\<lambda>fi. fi ! vi h) f)) / real (length f))"
  using assms
proof (induction hs rule: rev_induct)
  case Nil
  show ?case by simp
next
  case (snoc c cs)
  let ?F = "\<lambda>rtn h. snd (foldl (region_upd f h) (- 10000000, rtn) [0..<length f])"
  let ?r = "foldl ?F rtn0 cs"
  let ?lab = "\<lambda>h. real (first_argmax (map (\<lambda>fi. fi ! vi h) f)) / real (length f)"
  from snoc have len: "length ?r = length rtn0"
    and ih: "\<And>h. h \<in> set cs \<Longrightarrow> (\<exists>i < length f. f ! i ! vi h > - 10000000) \<Longrightarrow> ?r ! vi h = ?lab h"
    by simp_all
  from snoc.prems have inr: "vi c < length ?r" and inr': "\<And>h. h \<in> set cs \<Longrightarrow> vi h < length ?r"
    using len by simp_all
  have "foldl ?F rtn0 (cs @ [c]) = ?F ?r c" by simp
  also have "\<dots> = (if \<exists>i < length f. f ! i ! vi c > - 10000000 then ?r[vi c := ?lab c] else ?r)"
    by (rule region_one_cell)
  finally have last: "foldl ?F rtn0 (cs @ [c])
      = (if \<exists>i < length f. f ! i ! vi c > - 10000000 then ?r[vi c := ?lab c] else ?r)" .
  show ?case
  proof (intro conjI ballI impI)
    show "length (foldl ?F rtn0 (cs @ [c])) = length rtn0"
      unfolding last using len by simp
  next
    fix h assume h: "h \<in> set (cs @ [c])" and good: "\<exists>i < length f. f ! i ! vi h > - 10000000"
    show "foldl ?F rtn0 (cs @ [c]) ! vi h = ?lab h"
    proof (cases "vi h = vi c")
      case True
      with good inr show ?thesis unfolding last by simp
    next
      case False
      with h have hc: "h \<in> set cs" by auto
      from False have "foldl ?F rtn0 (cs @ [c]) ! vi h = ?r ! vi h"
        unfolding last by simp
      with ih [OF hc good] show ?thesis by simp
    qed
  qed
qed

text \<open>
  Where some field exceeds \<open>-1e7\<close> at a cell, the label of the cell is the smallest index
  attaining the maximum, divided by the number of fields, and lies in \<open>[0, 1)\<close>.
\<close>

lemma dirichlet_regions_label:
  assumes "f \<noteq> []" and "\<forall>c \<in> set (hexen hg). vi c < length (f ! 0)"
    and "h \<in> set (hexen hg)" and "\<exists>i < length f. f ! i ! vi h > - 10000000"
  shows "dirichlet_regions hg f ! vi h = real (first_argmax (map (\<lambda>fi. fi ! vi h) f)) / real (length f)
         \<and> 0 \<le> dirichlet_regions hg f ! vi h \<and> dirichlet_regions hg f ! vi h < 1"
proof -
  have "\<forall>c \<in> set (hexen hg). vi c < length (replicate (length (f ! 0)) (0::real))"
    using assms(2) by simp
  from regions_fold [OF this, of f] assms(3,4)
  have lab: "dirichlet_regions hg f ! vi h = real (first_argmax (map (\<lambda>fi. fi ! vi h) f)) / real (length f)"
    unfolding dirichlet_regions_def by blast
  have pos: "0 < length f" using assms(1) by simp
  have "first_argmax (map (\<lambda>fi. fi ! vi h) f) < length f" by (rule first_argmax_less [OF assms(1)])
  then have "real (first_argmax (map (\<lambda>fi. fi ! vi h) f)) / real (length f) < 1"
    using pos by simp
  moreover have "0 \<le> real (first_argmax (map (\<lambda>fi. fi ! vi h) f)) / real (length f)" by simp
  ultimately show ?thesis using lab by simp
qed

text \<open>
  C4 at a failing input. At the centre cell the two fields are \<open>-3e7\<close> and \<open>-2e7\<close>: the
  smallest index attaining the maximum is 1, so the label should be \<open>1/2\<close>, but no value
  exceeds the initial running maximum \<open>-1e7\<close> and \<open>dirichlet_regions\<close> leaves the label 0.
\<close>

theorem dirichlet_regions_below_sentinel:
  "dirichlet_regions flower_grid region_ff ! vi (hexen flower_grid ! 0) = 0
   \<and> real (first_argmax (map (\<lambda>fi. fi ! vi (hexen flower_grid ! 0)) region_ff)) / real (length region_ff) = 1 / 2"
proof -
  have a: "dirichlet_regions flower_grid region_ff ! vi (hexen flower_grid ! 0) = 0"
    by (simp add: dirichlet_regions_def region_upd_def flower_grid_simps region_ff_def upt_rec)
  have "first_argmax [- 30000000, - 20000000] = 1"
    unfolding first_argmax_def
    by (rule Least_equality) (auto simp: less_Suc_eq nth_Cons')
  then have b: "first_argmax (map (\<lambda>fi. fi ! vi (hexen flower_grid ! 0)) region_ff) = 1"
    by (simp add: flower_grid_simps region_ff_def)
  show ?thesis using a unfolding b by (simp add: region_ff_def)
qed


section \<open>Properties of vertex detection\<close>






section \<open>Properties of domain closure\<close>










section \<open>Properties of edge walking\<close>

text \<open>
  C7. In any round of the main loop of \<open>walk_common\<close> in which the initial direction is
  found: when neither neighbour of \<open>hexit_first\<close> flanking that direction is accepted as the
  cell with \<open>edgedoms.second\<close>, the walk throws; when one is accepted but is not the
  neighbour of \<open>hexit\<close> in the derived direction, the walk throws. An exception of the walk
  leaves \<open>walk_to_next\<close> and \<open>process_domain\<close> as that exception, which is not the value
  false that \<open>process_domain\<close> returns when it finds no domain.
\<close>

theorem walk_throws:
  "(first_dirn hg f (hexen hg ! hexit_first) v_init (fst edgedoms) [0..<6] hexit = (hexit1, dirn)
      \<and> dirn \<noteq> int_max
      \<and> find_second hg f (hexen hg ! hexit_first) dirn (snd edgedoms) nnc = None
    \<longrightarrow> walk_loop (Suc n) hg f edgedoms nnc (hexit, hexit_first, v_init, path) = Inl SecondHexNotFound)
   \<and> (first_dirn hg f (hexen hg ! hexit_first) v_init (fst edgedoms) [0..<6] hexit = (hexit1, dirn)
      \<and> dirn \<noteq> int_max
      \<and> find_second hg f (hexen hg ! hexit_first) dirn (snd edgedoms) nnc = Some (hexit_neighb, second_dirn)
      \<and> Some hexit_neighb \<noteq> nbr_at (hexen hg ! hexit1) (fst (rotation dirn second_dirn))
    \<longrightarrow> walk_loop (Suc n) hg f edgedoms nnc (hexit, hexit_first, v_init, path) = Inl WrongDirection)
   \<and> (walk_round hg f edgedoms nnc st = Inr (Inr st') \<and> walk_loop n hg f edgedoms nnc st' = Inl e
    \<longrightarrow> walk_loop (Suc n) hg f edgedoms nnc st = Inl e)
   \<and> (walk_loop fuel hg f (vtx_f (vertices ! dv), fst (neighb (vertices ! dv))) nnc'
         (hi (vertices ! dv),
          seed_first hg f (vertices ! dv) (vtx_f (vertices ! dv), fst (neighb (vertices ! dv))),
          vtx_v (vertices ! dv), pathto_next (vertices ! dv)) = Inl e'
    \<longrightarrow> walk_to_next fuel hg f (vertices ! dv) flt_max nnc' = Inl e'
        \<and> process_domain fuel hg f dv vertices domain first_vtx nnc' = Inl e'
        \<and> process_domain fuel hg f dv vertices domain first_vtx nnc' \<noteq> Inr (False, vertices'', domain'', nnc''))"
proof (intro conjI impI)
  assume "first_dirn hg f (hexen hg ! hexit_first) v_init (fst edgedoms) [0..<6] hexit = (hexit1, dirn)
      \<and> dirn \<noteq> int_max
      \<and> find_second hg f (hexen hg ! hexit_first) dirn (snd edgedoms) nnc = None"
  then show "walk_loop (Suc n) hg f edgedoms nnc (hexit, hexit_first, v_init, path) = Inl SecondHexNotFound"
    by (simp add: walk_round_def)
next
  assume "first_dirn hg f (hexen hg ! hexit_first) v_init (fst edgedoms) [0..<6] hexit = (hexit1, dirn)
      \<and> dirn \<noteq> int_max
      \<and> find_second hg f (hexen hg ! hexit_first) dirn (snd edgedoms) nnc = Some (hexit_neighb, second_dirn)
      \<and> Some hexit_neighb \<noteq> nbr_at (hexen hg ! hexit1) (fst (rotation dirn second_dirn))"
  then show "walk_loop (Suc n) hg f edgedoms nnc (hexit, hexit_first, v_init, path) = Inl WrongDirection"
    by (cases "rotation dirn second_dirn") (simp add: walk_round_def)
next
  assume "walk_round hg f edgedoms nnc st = Inr (Inr st') \<and> walk_loop n hg f edgedoms nnc st' = Inl e"
  then show "walk_loop (Suc n) hg f edgedoms nnc st = Inl e" by simp
next
  assume a: "walk_loop fuel hg f (vtx_f (vertices ! dv), fst (neighb (vertices ! dv))) nnc'
         (hi (vertices ! dv),
          seed_first hg f (vertices ! dv) (vtx_f (vertices ! dv), fst (neighb (vertices ! dv))),
          vtx_v (vertices ! dv), pathto_next (vertices ! dv)) = Inl e'"
  then show w: "walk_to_next fuel hg f (vertices ! dv) flt_max nnc' = Inl e'"
    by (simp add: walk_to_next_def walk_common_def)
  then show p: "process_domain fuel hg f dv vertices domain first_vtx nnc' = Inl e'"
    by (subst process_domain.simps) simp
  then show "process_domain fuel hg f dv vertices domain first_vtx nnc' \<noteq> Inr (False, vertices'', domain'', nnc'')"
    by simp
qed


theorem walk_throws_witness:
  "walk_loop (Suc 0) flower_grid flower_ids (0, 9) (flt_max, flt_max) (0, 1, (1, 11547 / 20000), [])
     = Inl SecondHexNotFound
   \<and> walk_loop (Suc 0) flower_grid flower_ids (7, 2) (flt_max, flt_max) (1, 1, (1, 11547 / 20000), [])
     = Inl WrongDirection
   \<and> walk_loop (Suc (Suc 0)) flower_grid ridge_ids (0, 2) (1, 34641 / 20000) (0, 1, (1, 11547 / 20000), [])
     = Inl SecondHexNotFound
   \<and> walk_to_next 4 flower_grid flower_ids ([stray_vtx] ! 0) flt_max (flt_max, flt_max) = Inl WrongDirection
   \<and> process_domain 4 flower_grid flower_ids 0 [stray_vtx] [] default_vtx (flt_max, flt_max)
     = Inl WrongDirection
   \<and> process_domain 4 flower_grid flower_ids 0 [stray_vtx] [] default_vtx (flt_max, flt_max)
     \<noteq> Inr (False, [stray_vtx\<lparr>closed := True\<rparr>], [stray_vtx], (flt_max, flt_max))"
proof -
  have a1: "first_dirn flower_grid flower_ids (hexen flower_grid ! 1) (1, 11547 / 20000) (fst (0, 9)) [0..<6] 0 = (0, 3)"
    by (simp add: flower_eval)
  have a2: "(3::nat) \<noteq> int_max" by (simp add: int_max_def)
  have a3: "find_second flower_grid flower_ids (hexen flower_grid ! 1) 3 (snd (0, 9)) (flt_max, flt_max) = None"
    by (simp add: flower_eval)
  have b1: "first_dirn flower_grid flower_ids (hexen flower_grid ! 1) (1, 11547 / 20000) (fst (7, 2)) [0..<6] 1 = (0, 1)"
    by (simp add: flower_eval)
  have b2: "(1::nat) \<noteq> int_max" by (simp add: int_max_def)
  have b3: "find_second flower_grid flower_ids (hexen flower_grid ! 1) 1 (snd (7, 2)) (flt_max, flt_max) = Some (2, 2)"
    by (simp add: flower_eval)
  have b4: "Some (2::nat) \<noteq> nbr_at (hexen flower_grid ! 0) (fst (rotation 1 2))"
    by (simp add: flower_eval)
  have c1: "walk_loop 4 flower_grid flower_ids (vtx_f ([stray_vtx] ! 0), fst (neighb ([stray_vtx] ! 0)))
         (flt_max, flt_max)
         (hi ([stray_vtx] ! 0),
          seed_first flower_grid flower_ids ([stray_vtx] ! 0) (vtx_f ([stray_vtx] ! 0), fst (neighb ([stray_vtx] ! 0))),
          vtx_v ([stray_vtx] ! 0), pathto_next ([stray_vtx] ! 0)) = Inl WrongDirection"
    by (simp add: flower_eval stray_vtx_def)
  from walk_throws [of flower_grid flower_ids 1 "(1, 11547 / 20000)" "(0, 9)" 0 0 3 "(flt_max, flt_max)" 0 "[]"]
    a1 a2 a3
  have 1: "walk_loop (Suc 0) flower_grid flower_ids (0, 9) (flt_max, flt_max) (0, 1, (1, 11547 / 20000), [])
     = Inl SecondHexNotFound" by blast
  from walk_throws [of flower_grid flower_ids 1 "(1, 11547 / 20000)" "(7, 2)" 1 0 1 "(flt_max, flt_max)" 0 "[]" 2 2]
    b1 b2 b3 b4
  have 2: "walk_loop (Suc 0) flower_grid flower_ids (7, 2) (flt_max, flt_max) (1, 1, (1, 11547 / 20000), [])
     = Inl WrongDirection" by blast
  from walk_throws [where fuel = 4 and hg = flower_grid and f = flower_ids and vertices = "[stray_vtx]"
      and dv = 0 and nnc' = "(flt_max, flt_max)" and e' = WrongDirection and domain = "[]"
      and first_vtx = default_vtx and vertices'' = "[stray_vtx\<lparr>closed := True\<rparr>]"
      and domain'' = "[stray_vtx]" and nnc'' = "(flt_max, flt_max)"] c1
  have 3: "walk_to_next 4 flower_grid flower_ids ([stray_vtx] ! 0) flt_max (flt_max, flt_max) = Inl WrongDirection
   \<and> process_domain 4 flower_grid flower_ids 0 [stray_vtx] [] default_vtx (flt_max, flt_max)
     = Inl WrongDirection
   \<and> process_domain 4 flower_grid flower_ids 0 [stray_vtx] [] default_vtx (flt_max, flt_max)
     \<noteq> Inr (False, [stray_vtx\<lparr>closed := True\<rparr>], [stray_vtx], (flt_max, flt_max))" by blast
  from walk_throws [where hg = flower_grid and f = ridge_ids and edgedoms = "(0, 2)"
      and nnc = "(1, 34641 / 20000)" and st = "(0, 1, (1, 11547 / 20000), [])"
      and st' = "(4, 0, (- 1, 11547 / 20000), [(1, 11547 / 20000), (0, 11547 / 10000)])"
      and n = "Suc 0" and e = SecondHexNotFound] ridge_round ridge_second_round
  have 4: "walk_loop (Suc (Suc 0)) flower_grid ridge_ids (0, 2) (1, 34641 / 20000) (0, 1, (1, 11547 / 20000), [])
     = Inl SecondHexNotFound" by blast
  from 1 2 3 4 show ?thesis by blast
qed

text \<open>
  C10. For a vertex whose neighbour pair holds the sentinel \<open>-1\<close> in either position,
  \<open>walk_to_neighbour\<close> returns the coordinate \<open>(0, 0)\<close> and leaves the vertex with its path
  buffers, \<open>next_neighb_dom\<close> and \<open>next_neighb_coord\<close> as they were, whatever the grid, the
  identity field and the bound on the rounds of \<open>walk_common\<close>.
\<close>

theorem walk_to_neighbour_sentinel:
  assumes "fst (neighb v) = - 1 \<or> snd (neighb v) = - 1"
  shows "walk_to_neighbour fuel hg f v next_neighb_dom next_neighb_coord
           = Inr ((0, 0), v, next_neighb_dom, next_neighb_coord)"
  using assms by (simp add: walk_to_neighbour_def)

theorem walk_to_neighbour_sentinel_witness:
  "walk_to_neighbour 0 flower_grid flower_ids (flower_vertices ! 6) 5 (3, 4)
     = Inr ((0, 0), flower_vertices ! 6, 5, (3, 4))"
proof -
  have "fst (neighb (flower_vertices ! 6)) = - 1 \<or> snd (neighb (flower_vertices ! 6)) = - 1"
    by (simp add: flower_vertices_def new_vtx_def)
  then show ?thesis by (rule walk_to_neighbour_sentinel)
qed


section \<open>A walk that never ends\<close>







section \<open>The closure loop stops after three candidates\<close>

text \<open>
  C1 at a failing input. On \<open>outer_first_grid\<close> the scan yields 30 candidates, the first
  four owned by the boundary cell E. The loop of \<open>dirichlet_vertices\<close> passes over three of
  them and stops: it never calls \<open>process_domain\<close> and returns no domain. The candidate at
  position 24, owned by the centre, is left neither closed nor on the boundary, and a closure
  attempt from it would succeed with a domain of six vertices.
\<close>

theorem dirichlet_vertices_stops_after_three:
  "dirichlet_vertices 4 outer_first_grid outer_ids []
     = Inr ([], mark_closed (mark_closed (mark_closed outer_vertices 0) 1) 2)
   \<and> closure_loop 4 outer_first_grid outer_ids 0 0 (scan_vertices outer_first_grid outer_ids []) [] []
     = Inr ([], mark_closed (mark_closed (mark_closed outer_vertices 0) 1) 2, [])
   \<and> length outer_vertices = 30
   \<and> closed (mark_closed (mark_closed (mark_closed outer_vertices 0) 1) 2 ! 24) = False
   \<and> onBoundary (mark_closed (mark_closed (mark_closed outer_vertices 0) 1) 2 ! 24) = False
   \<and> boundaryHex (hexen outer_first_grid ! hi (mark_closed (mark_closed (mark_closed outer_vertices 0) 1) 2 ! 24)) = False
   \<and> (case process_domain 4 outer_first_grid outer_ids 24
              (mark_closed (mark_closed (mark_closed outer_vertices 0) 1) 2) [] default_vtx (flt_max, flt_max) of
         Inl e \<Rightarrow> False
       | Inr (success, vs, one_domain, nnc) \<Rightarrow> success = True \<and> length one_domain = 6)"
proof -
  have cl: "closure_loop 4 outer_first_grid outer_ids 0 0 (scan_vertices outer_first_grid outer_ids []) [] []
     = Inr ([], mark_closed (mark_closed (mark_closed outer_vertices 0) 1) 2, [])"
    by (simp only: outer_scan outer_closure)
  then have dv: "dirichlet_vertices 4 outer_first_grid outer_ids []
     = Inr ([], mark_closed (mark_closed (mark_closed outer_vertices 0) 1) 2)"
    by (simp add: dirichlet_vertices_def)
  have rest: "length outer_vertices = 30
   \<and> closed (mark_closed (mark_closed (mark_closed outer_vertices 0) 1) 2 ! 24) = False
   \<and> onBoundary (mark_closed (mark_closed (mark_closed outer_vertices 0) 1) 2 ! 24) = False
   \<and> boundaryHex (hexen outer_first_grid ! hi (mark_closed (mark_closed (mark_closed outer_vertices 0) 1) 2 ! 24)) = False"
    by (simp add: mark_closed_def outer_vertices_def new_vtx_def outer_first_grid_simps)
  have pd: "(case process_domain 4 outer_first_grid outer_ids 24
              (mark_closed (mark_closed (mark_closed outer_vertices 0) 1) 2) [] default_vtx (flt_max, flt_max) of
         Inl e \<Rightarrow> False
       | Inr (success, vs, one_domain, nnc) \<Rightarrow> success = True \<and> length one_domain = 6)"
    by (simp add: outer_eval)
  from dv cl rest pd show ?thesis by blast
qed


end
